theory Spec2Isabelle
  imports Main "HOL-Library.Sublist"
begin

section \<open>JavaScript values\<close>

text \<open>
  The gateway is modelled from \<^verbatim>\<open>src/index.ts\<close>, the server on standard input and
  output with its client of the helpdesk, and from \<^verbatim>\<open>src/server.ts\<close>, the HTTP server.

  Every value the gateway handles is typed \<^verbatim>\<open>any\<close> in the source: the bodies of the
  remote collaborator's responses, the tool arguments, the payloads handed back. They are
  modelled as JSON values extended with \<^verbatim>\<open>undefined\<close> and with \<^verbatim>\<open>NaN\<close>, which no
  JSON text denotes but a conversion to a number can yield. The other numbers are the
  integers (identifiers, counts, page numbers). A string is the list of its characters;
  the Japanese message literals of the source are written as their UTF-8 bytes. An object
  is its list of members in source order; a later member of the same name shadows an
  earlier one, as in \<^verbatim>\<open>JSON.parse\<close>.
\<close>

datatype jsval =
    JUndefined
  | JNull
  | JBool bool
  | JNum int
  | JNaN
  | JStr string
  | JArr "jsval list"
  | JObj "(string \<times> jsval) list"

text \<open>
  An error that is thrown: one raised by the HTTP client (with its \<^verbatim>\<open>message\<close>, its
  \<^verbatim>\<open>code\<close> such as \<^verbatim>\<open>ECONNABORTED\<close>, and the status and body of the response when
  there was one), a \<^verbatim>\<open>TypeError\<close> of the language itself, or an \<^verbatim>\<open>Error\<close> the source
  creates with \<^verbatim>\<open>new Error(message)\<close>.
\<close>

datatype js_error =
    AxiosError string "string option" "(jsval \<times> jsval) option"
  | TypeError string
  | JsError string

fun message :: "js_error \<Rightarrow> string" where
  "message (AxiosError m c r) = m"
| "message (TypeError m) = m"
| "message (JsError m) = m"

fun code :: "js_error \<Rightarrow> string option" where
  "code (AxiosError m c r) = c"
| "code (TypeError m) = None"
| "code (JsError m) = None"

fun response :: "js_error \<Rightarrow> (jsval \<times> jsval) option" where
  "response (AxiosError m c r) = r"
| "response (TypeError m) = None"
| "response (JsError m) = None"

text \<open>Truthiness, as \<^verbatim>\<open>if (x)\<close>, \<^verbatim>\<open>while (x)\<close>, \<^verbatim>\<open>!x\<close> and \<^verbatim>\<open>x || y\<close> test it.\<close>

fun truthy :: "jsval \<Rightarrow> bool" where
  "truthy JUndefined = False"
| "truthy JNull = False"
| "truthy (JBool b) = b"
| "truthy (JNum n) = (n \<noteq> 0)"
| "truthy JNaN = False"
| "truthy (JStr s) = (s \<noteq> [])"
| "truthy (JArr xs) = True"
| "truthy (JObj kvs) = True"

definition js_or :: "jsval \<Rightarrow> jsval \<Rightarrow> jsval" where
  "js_or a b = (if truthy a then a else b)"

text \<open>
  Reading a member \<^verbatim>\<open>v.k\<close>. On \<^verbatim>\<open>null\<close> and \<^verbatim>\<open>undefined\<close> it throws; on an object
  it is the member or \<^verbatim>\<open>undefined\<close>; arrays and strings have a \<^verbatim>\<open>length\<close>; any other
  read is \<^verbatim>\<open>undefined\<close>. (The member names the source reads are none of those the
  prototypes of objects, arrays, strings, numbers and booleans define, but \<^verbatim>\<open>length\<close>.)
\<close>

fun field :: "jsval \<Rightarrow> string \<Rightarrow> js_error + jsval" where
  "field JUndefined k =
     Inl (TypeError (''Cannot read properties of undefined (reading '' @ [CHR 0x27] @ k @ [CHR 0x27] @ '')''))"
| "field JNull k =
     Inl (TypeError (''Cannot read properties of null (reading '' @ [CHR 0x27] @ k @ [CHR 0x27] @ '')''))"
| "field (JObj kvs) k = Inr (case map_of (rev kvs) k of None \<Rightarrow> JUndefined | Some v \<Rightarrow> v)"
| "field (JArr xs) k = Inr (if k = ''length'' then JNum (int (length xs)) else JUndefined)"
| "field (JStr s) k = Inr (if k = ''length'' then JNum (int (length s)) else JUndefined)"
| "field v k = Inr JUndefined"

text \<open>
  A read that cannot throw: \<^verbatim>\<open>v?.k\<close>, or \<^verbatim>\<open>v.k\<close> where \<open>v\<close> is known to be neither
  \<^verbatim>\<open>null\<close> nor \<^verbatim>\<open>undefined\<close>.
\<close>

definition get :: "jsval \<Rightarrow> string \<Rightarrow> jsval" where
  "get v k = (case field v k of Inl e \<Rightarrow> JUndefined | Inr x \<Rightarrow> x)"

definition present :: "jsval \<Rightarrow> bool" where
  "present v = (v \<noteq> JNull \<and> v \<noteq> JUndefined)"

text \<open>
  Decimal notation of an integer, as a template literal writes a number (of less than 22
  digits).
\<close>

definition digit :: "nat \<Rightarrow> char" where
  "digit d = ''0123456789'' ! d"

fun digits :: "nat \<Rightarrow> string" where
  "digits n = (if n < 10 then [digit n] else digits (n div 10) @ [digit (n mod 10)])"

declare digits.simps [simp del]

definition show_int :: "int \<Rightarrow> string" where
  "show_int i = (if i < 0 then CHR ''-'' # digits (nat (- i)) else digits (nat i))"

fun join :: "string \<Rightarrow> string list \<Rightarrow> string" where
  "join sep [] = []"
| "join sep [x] = x"
| "join sep (x # y # ys) = x @ sep @ join sep (y # ys)"

text \<open>
  \<^verbatim>\<open>String(v)\<close>, which is also what \<^verbatim>\<open>${v}\<close> interpolates: an array is its elements
  joined by commas, \<^verbatim>\<open>null\<close> and \<^verbatim>\<open>undefined\<close> elements being empty.
\<close>

fun to_string :: "jsval \<Rightarrow> string" where
  "to_string JUndefined = ''undefined''"
| "to_string JNull = ''null''"
| "to_string (JBool b) = (if b then ''true'' else ''false'')"
| "to_string (JNum n) = show_int n"
| "to_string JNaN = ''NaN''"
| "to_string (JStr s) = s"
| "to_string (JArr xs) =
     join '','' (map (\<lambda>x. if x = JNull \<or> x = JUndefined then [] else to_string x) xs)"
| "to_string (JObj kvs) = ''[object Object]''"

text \<open>
  The spread \<^verbatim>\<open>...v\<close> in an argument list: the elements of an array, the characters of
  a string; anything else is not iterable.
\<close>

fun spread :: "jsval \<Rightarrow> js_error + jsval list" where
  "spread (JArr xs) = Inr xs"
| "spread (JStr s) = Inr (map (\<lambda>c. JStr [c]) s)"
| "spread v =
     Inl (TypeError ''Spread syntax requires ...iterable[Symbol.iterator] to be a function'')"

text \<open>
  Conversion to a number, \<^verbatim>\<open>None\<close> being \<^verbatim>\<open>NaN\<close>. How the text of a string is read as
  a number is left to the parameter \<open>parse\<close>; an array is read through its text, and the
  text of an object is not a number.
\<close>

fun to_number :: "(string \<Rightarrow> int option) \<Rightarrow> jsval \<Rightarrow> int option" where
  "to_number parse JUndefined = None"
| "to_number parse JNull = Some 0"
| "to_number parse (JBool b) = Some (if b then 1 else 0)"
| "to_number parse (JNum n) = Some n"
| "to_number parse JNaN = None"
| "to_number parse (JStr s) = parse s"
| "to_number parse (JArr xs) = parse (to_string (JArr xs))"
| "to_number parse (JObj kvs) = None"

definition num_val :: "int option \<Rightarrow> jsval" where
  "num_val n = (case n of None \<Rightarrow> JNaN | Some i \<Rightarrow> JNum i)"

text \<open>\<^verbatim>\<open>Math.min(a, b)\<close> on numbers, and \<^verbatim>\<open>xs.slice(0, end)\<close> for a number \<open>end\<close>.\<close>

definition math_min :: "int option \<Rightarrow> int option \<Rightarrow> int option" where
  "math_min a b =
     (case a of None \<Rightarrow> None | Some x \<Rightarrow> (case b of None \<Rightarrow> None | Some y \<Rightarrow> Some (min x y)))"

definition slice0 :: "'a list \<Rightarrow> int option \<Rightarrow> 'a list" where
  "slice0 xs e =
     (case e of
        None \<Rightarrow> []
      | Some n \<Rightarrow> if n < 0 then take (nat (int (length xs) + n)) xs else take (nat n) xs)"

section \<open>Strings\<close>

text \<open>
  \<^verbatim>\<open>s.replace(pat, rep)\<close> with a string pattern replaces the first occurrence of the
  pattern, scanning from the left; \<^verbatim>\<open>s.includes(pat)\<close> tells whether there is one.
  \<^verbatim>\<open>replace_all\<close> replaces every occurrence, left to right and without overlap, as a
  global regular expression of a literal text does.
\<close>

fun replace_first :: "string \<Rightarrow> string \<Rightarrow> string \<Rightarrow> string" where
  "replace_first pat rep [] = (if pat = [] then rep else [])"
| "replace_first pat rep (c # cs) =
     (if prefix pat (c # cs) then rep @ drop (length pat) (c # cs)
      else c # replace_first pat rep cs)"

fun str_includes :: "string \<Rightarrow> string \<Rightarrow> bool" where
  "str_includes [] pat = (pat = [])"
| "str_includes (c # cs) pat = (prefix pat (c # cs) \<or> str_includes cs pat)"

function replace_all :: "string \<Rightarrow> string \<Rightarrow> string \<Rightarrow> string" where
  "replace_all pat rep s =
     (if s = [] \<or> pat = [] then s
      else if prefix pat s then rep @ replace_all pat rep (drop (length pat) s)
      else hd s # replace_all pat rep (tl s))"
  by pat_completeness auto
termination
  by (relation "measure (\<lambda>(pat, rep, s). length s)") (auto simp: neq_Nil_conv)

declare replace_all.simps [simp del]

section \<open>The remote collaborator\<close>

text \<open>
  A request of the HTTP client: method, URL as given to the client (a path relative to
  the client's base URL, or an absolute URL), query parameters, body, timeout in
  milliseconds. The remote collaborator is any function from its own state and a request
  to the response body or the error thrown, and its next state. The world threads the
  remote's state, the requests issued so far in order, and the lines written to
  \<^verbatim>\<open>console.error\<close>.
\<close>

datatype verb = GET | POST | PUT

record request =
  verb :: verb
  url :: string
  params :: "(string \<times> jsval) list"
  body :: jsval
  timeout :: "nat option"

type_synonym 'w remote = "'w \<Rightarrow> request \<Rightarrow> (js_error + jsval) \<times> 'w"

record 'w world =
  server :: 'w
  sent :: "request list"
  console :: "jsval list list"

definition axios :: "'w remote \<Rightarrow> request \<Rightarrow> 'w world \<Rightarrow> (js_error + jsval) \<times> 'w world" where
  "axios srv rq w =
     (case srv (server w) rq of
        (r, s') \<Rightarrow> (r, w\<lparr>server := s', sent := sent w @ [rq]\<rparr>))"

definition get_req :: "string \<Rightarrow> request" where
  "get_req u = \<lparr>verb = GET, url = u, params = [], body = JUndefined, timeout = None\<rparr>"

definition console_error :: "jsval list \<Rightarrow> 'w world \<Rightarrow> 'w world" where
  "console_error args w = w\<lparr>console := console w @ [args]\<rparr>"

section \<open>The client\<close>

text \<open>
  The fields of \<^verbatim>\<open>ZendeskClient\<close> that its methods read. The constructor derives the
  base URL of the HTTP client from the subdomain, and keeps a help-center URL only when
  one is given and is not empty (\<^verbatim>\<open>helpCenterUrl || null\<close>).
\<close>

record client =
  subdomain :: string
  helpCenterUrl :: "string option"
  baseURL :: string

definition ZendeskClient :: "string \<Rightarrow> string option \<Rightarrow> client" where
  "ZendeskClient sub hc =
     \<lparr>subdomain = sub,
      helpCenterUrl = (case hc of None \<Rightarrow> None | Some h \<Rightarrow> if h = [] then None else Some h),
      baseURL = ''https://'' @ sub @ ''.zendesk.com/api/v2''\<rparr>"

text \<open>
  \<^verbatim>\<open>convertToCustomUrl\<close>. Without a help-center URL the argument is returned as it
  is. Otherwise \<^verbatim>\<open>new RegExp(source, 'g')\<close> is built from the text
  \<^verbatim>\<open>https://${subdomain}\.zendesk\.com/hc/\<close>, the subdomain not escaped, and
  \<^verbatim>\<open>zendeskUrl.replace\<close> is called with it and with the replacement
  \<^verbatim>\<open>${helpCenterUrl}/hc/\<close>. The expression is not anchored and every match is
  replaced.

  When the subdomain has no character that is special in a regular expression, the
  expression matches the text \<^verbatim>\<open>https://<subdomain>.zendesk.com/hc/\<close> and nothing else;
  when moreover the help-center URL has no \<^verbatim>\<open>$\<close>, the replacement stands for itself.
  \<open>literal_config\<close> tests both, and for such a client the call is the replacement of
  every occurrence of that text, left to right and without overlap. For any other client
  the outcome is that of the regular-expression engine, which is the parameter \<open>regexp\<close>:
  from the source text of an expression, the error its construction throws or what
  \<^verbatim>\<open>replace\<close> does with it, given a replacement and a subject. The expression is built
  before the method \<^verbatim>\<open>replace\<close> is looked up, and a value that is not a string has no
  such method.
\<close>

type_synonym regexp = "string \<Rightarrow> js_error + (string \<Rightarrow> string \<Rightarrow> string)"

definition regex_special :: "char list" where
  "regex_special = CHR 0x5C # ''^$.|?*+()[]{}''"

definition literal_config :: "client \<Rightarrow> bool" where
  "literal_config c =
     (list_all (\<lambda>ch. ch \<notin> set regex_special) (subdomain c) \<and>
      (case helpCenterUrl c of None \<Rightarrow> True | Some h \<Rightarrow> CHR ''$'' \<notin> set h))"

definition hc_prefix :: "client \<Rightarrow> string" where
  "hc_prefix c = ''https://'' @ subdomain c @ ''.zendesk.com/hc/''"

definition hc_source :: "client \<Rightarrow> string" where
  "hc_source c =
     ''https://'' @ subdomain c @ [CHR 0x5C] @ ''.zendesk'' @ [CHR 0x5C] @ ''.com/hc/''"

definition string_replace :: "jsval \<Rightarrow> (string \<Rightarrow> string) \<Rightarrow> js_error + jsval" where
  "string_replace zendeskUrl f =
     (case zendeskUrl of
        JStr s \<Rightarrow> Inr (JStr (f s))
      | _ \<Rightarrow>
          (case field zendeskUrl ''replace'' of
             Inl e \<Rightarrow> Inl e
           | Inr m \<Rightarrow> Inl (TypeError ''zendeskUrl.replace is not a function'')))"

definition convertToCustomUrl :: "regexp \<Rightarrow> client \<Rightarrow> jsval \<Rightarrow> js_error + jsval" where
  "convertToCustomUrl regexp c zendeskUrl =
     (case helpCenterUrl c of
        None \<Rightarrow> Inr zendeskUrl
      | Some h \<Rightarrow>
          if h = [] then Inr zendeskUrl
          else if literal_config c then
            string_replace zendeskUrl (replace_all (hc_prefix c) (h @ ''/hc/''))
          else
            (case regexp (hc_source c) of
               Inl e \<Rightarrow> Inl e
             | Inr urlPattern \<Rightarrow> string_replace zendeskUrl (urlPattern (h @ ''/hc/''))))"

section \<open>Pagination of a ticket's comments\<close>

text \<open>
  The continuation step of the pagination, the same in \<^verbatim>\<open>getTicket\<close> and in
  \<^verbatim>\<open>getTicketComments\<close>: \<^verbatim>\<open>nextPageUrl = data.next_page\<close>, and when that is truthy,
  \<^verbatim>\<open>nextPageUrl.replace(baseURL || '', '')\<close>. A falsy continuation is \<^verbatim>\<open>None\<close> (the
  variable is only tested afterwards); a truthy one that is not a string has no
  \<^verbatim>\<open>replace\<close> method.
\<close>

definition next_page_url :: "client \<Rightarrow> jsval \<Rightarrow> js_error + string option" where
  "next_page_url c data =
     (case field data ''next_page'' of
        Inl e \<Rightarrow> Inl e
      | Inr np \<Rightarrow>
          if truthy np then
            (case np of
               JStr s \<Rightarrow> Inr (Some (replace_first (baseURL c) [] s))
             | _ \<Rightarrow> Inl (TypeError ''nextPageUrl.replace is not a function''))
          else Inr None)"

text \<open>
  \<^verbatim>\<open>while (nextPageUrl) { ... }\<close> of \<^verbatim>\<open>getTicket\<close> and \<^verbatim>\<open>getTicketComments\<close>, with
  the accumulator \<^verbatim>\<open>allComments\<close>. The source puts no bound on the number of pages, so
  the loop is a partial function: \<^verbatim>\<open>None\<close> is a run that never returns. An error
  thrown inside the loop leaves it, and the accumulator is lost with it.
\<close>

partial_function (option) comments_loop ::
  "'w remote \<Rightarrow> client \<Rightarrow> string option \<Rightarrow> jsval list \<Rightarrow> 'w world
     \<Rightarrow> ((js_error + jsval list) \<times> 'w world) option" where
  "comments_loop srv c nextPageUrl allComments w =
     (case nextPageUrl of
        None \<Rightarrow> Some (Inr allComments, w)
      | Some u \<Rightarrow>
          if u = [] then Some (Inr allComments, w)
          else
            (case axios srv (get_req u) w of
               (Inl e, w1) \<Rightarrow> Some (Inl e, w1)
             | (Inr data, w1) \<Rightarrow>
                 (case field data ''comments'' of
                    Inl e \<Rightarrow> Some (Inl e, w1)
                  | Inr cs \<Rightarrow>
                      (case spread cs of
                         Inl e \<Rightarrow> Some (Inl e, w1)
                       | Inr items \<Rightarrow>
                           (case next_page_url c data of
                              Inl e \<Rightarrow> Some (Inl e, w1)
                            | Inr np \<Rightarrow> comments_loop srv c np (allComments @ items) w1)))))"

definition comments_path :: "jsval \<Rightarrow> string" where
  "comments_path ticketId = ''/tickets/'' @ to_string ticketId @ ''/comments.json?sort_order=asc''"

definition ticket_path :: "jsval \<Rightarrow> string" where
  "ticket_path ticketId = ''/tickets/'' @ to_string ticketId @ ''.json''"

definition getTicketComments ::
  "'w remote \<Rightarrow> client \<Rightarrow> jsval \<Rightarrow> 'w world \<Rightarrow> ((js_error + jsval) \<times> 'w world) option" where
  "getTicketComments srv c ticketId w =
     (case comments_loop srv c (Some (comments_path ticketId)) [] w of
        None \<Rightarrow> None
      | Some (Inl e, w1) \<Rightarrow> Some (Inl e, w1)
      | Some (Inr allComments, w1) \<Rightarrow>
          Some (Inr (JObj [(''comments'', JArr allComments),
                           (''count'', JNum (int (length allComments)))]), w1))"

definition getTicket ::
  "'w remote \<Rightarrow> client \<Rightarrow> jsval \<Rightarrow> 'w world \<Rightarrow> ((js_error + jsval) \<times> 'w world) option" where
  "getTicket srv c ticketId w =
     (case axios srv (get_req (ticket_path ticketId)) w of
        (Inl e, w1) \<Rightarrow> Some (Inl e, w1)
      | (Inr ticketData, w1) \<Rightarrow>
          (case comments_loop srv c (Some (comments_path ticketId)) [] w1 of
             None \<Rightarrow> None
           | Some (Inl e, w2) \<Rightarrow> Some (Inl e, w2)
           | Some (Inr allComments, w2) \<Rightarrow>
               (case field ticketData ''ticket'' of
                  Inl e \<Rightarrow> Some (Inl e, w2)
                | Inr t \<Rightarrow>
                    Some (Inr (JObj [(''ticket'', t),
                                     (''comments'', JArr allComments),
                                     (''total_comments'', JNum (int (length allComments)))]),
                          w2))))"

text \<open>
  A well-formed run of pages, as the remote serves it from state \<open>s\<close> when asked for
  \<open>u\<close>: every page is an object whose \<^verbatim>\<open>comments\<close> is an array; the last page has a
  falsy \<^verbatim>\<open>next_page\<close>; every other page has a string there, not empty and not the bare
  base URL, and the remote serves the rest of the run at that reference with the base URL
  removed from it. \<open>pages\<close> lists the comment arrays of the run in the order served.
\<close>

fun serves :: "'w remote \<Rightarrow> client \<Rightarrow> string \<Rightarrow> 'w \<Rightarrow> jsval list list \<Rightarrow> bool" where
  "serves srv c u s [] = False"
| "serves srv c u s (p # ps) =
     (case srv s (get_req u) of
        (Inl e, s1) \<Rightarrow> False
      | (Inr data, s1) \<Rightarrow>
          field data ''comments'' = Inr (JArr p) \<and>
          (case field data ''next_page'' of
             Inl e \<Rightarrow> False
           | Inr (JStr n) \<Rightarrow>
               if n = [] then ps = []
               else n \<noteq> baseURL c \<and> ps \<noteq> [] \<and> serves srv c (replace_first (baseURL c) [] n) s1 ps
           | Inr v \<Rightarrow> \<not> truthy v \<and> ps = []))"

section \<open>Searching the help center\<close>

text \<open>
  The message literals of \<^verbatim>\<open>searchArticles\<close>, in UTF-8: "no search result was found",
  "no published article was found", "unknown error", and the three parts of the error
  text, "help center search error: ", " (status: " and ")".
\<close>

definition msg_no_results :: string where
  "msg_no_results =
     [CHR 0xE6, CHR 0xA4, CHR 0x9C, CHR 0xE7, CHR 0xB4, CHR 0xA2, CHR 0xE7, CHR 0xB5,
      CHR 0x90, CHR 0xE6, CHR 0x9E, CHR 0x9C, CHR 0xE3, CHR 0x81, CHR 0x8C, CHR 0xE8,
      CHR 0xA6, CHR 0x8B, CHR 0xE3, CHR 0x81, CHR 0xA4, CHR 0xE3, CHR 0x81, CHR 0x8B,
      CHR 0xE3, CHR 0x82, CHR 0x8A, CHR 0xE3, CHR 0x81, CHR 0xBE, CHR 0xE3, CHR 0x81,
      CHR 0x9B, CHR 0xE3, CHR 0x82, CHR 0x93, CHR 0xE3, CHR 0x81, CHR 0xA7, CHR 0xE3,
      CHR 0x81, CHR 0x97, CHR 0xE3, CHR 0x81, CHR 0x9F]"

definition msg_no_public :: string where
  "msg_no_public =
     [CHR 0xE5, CHR 0x85, CHR 0xAC, CHR 0xE9, CHR 0x96, CHR 0x8B, CHR 0xE3, CHR 0x81,
      CHR 0x95, CHR 0xE3, CHR 0x82, CHR 0x8C, CHR 0xE3, CHR 0x81, CHR 0xA6, CHR 0xE3,
      CHR 0x81, CHR 0x84, CHR 0xE3, CHR 0x82, CHR 0x8B, CHR 0xE8, CHR 0xA8, CHR 0x98,
      CHR 0xE4, CHR 0xBA, CHR 0x8B, CHR 0xE3, CHR 0x81, CHR 0x8C, CHR 0xE8, CHR 0xA6,
      CHR 0x8B, CHR 0xE3, CHR 0x81, CHR 0xA4, CHR 0xE3, CHR 0x81, CHR 0x8B, CHR 0xE3,
      CHR 0x82, CHR 0x8A, CHR 0xE3, CHR 0x81, CHR 0xBE, CHR 0xE3, CHR 0x81, CHR 0x9B,
      CHR 0xE3, CHR 0x82, CHR 0x93, CHR 0xE3, CHR 0x81, CHR 0xA7, CHR 0xE3, CHR 0x81,
      CHR 0x97, CHR 0xE3, CHR 0x81, CHR 0x9F]"

definition msg_unknown :: string where
  "msg_unknown =
     [CHR 0xE4, CHR 0xB8, CHR 0x8D, CHR 0xE6, CHR 0x98, CHR 0x8E, CHR 0xE3, CHR 0x81,
      CHR 0xAA, CHR 0xE3, CHR 0x82, CHR 0xA8, CHR 0xE3, CHR 0x83, CHR 0xA9, CHR 0xE3,
      CHR 0x83, CHR 0xBC]"

definition msg_search_error :: string where
  "msg_search_error =
     [CHR 0xE3, CHR 0x83, CHR 0x98, CHR 0xE3, CHR 0x83, CHR 0xAB, CHR 0xE3, CHR 0x83,
      CHR 0x97, CHR 0xE3, CHR 0x82, CHR 0xBB, CHR 0xE3, CHR 0x83, CHR 0xB3, CHR 0xE3,
      CHR 0x82, CHR 0xBF, CHR 0xE3, CHR 0x83, CHR 0xBC, CHR 0xE6, CHR 0xA4, CHR 0x9C,
      CHR 0xE7, CHR 0xB4, CHR 0xA2, CHR 0xE3, CHR 0x82, CHR 0xA8, CHR 0xE3, CHR 0x83,
      CHR 0xA9, CHR 0xE3, CHR 0x83, CHR 0xBC] @ '': ''"

definition msg_status :: string where
  "msg_status =
     '' ('' @
     [CHR 0xE3, CHR 0x82, CHR 0xB9, CHR 0xE3, CHR 0x83, CHR 0x86, CHR 0xE3, CHR 0x83,
      CHR 0xBC, CHR 0xE3, CHR 0x82, CHR 0xBF, CHR 0xE3, CHR 0x82, CHR 0xB9] @ '': ''"

definition empty_result :: "(string \<times> jsval) list" where
  "empty_result =
     [(''results'', JArr []), (''count'', JNum 0), (''page'', JNum 1), (''page_count'', JNum 0)]"

definition search_req :: "jsval \<Rightarrow> jsval \<Rightarrow> request" where
  "search_req query locale =
     \<lparr>verb = GET, url = ''/help_center/articles/search.json'',
      params = [(''query'', query), (''locale'', locale)], body = JUndefined, timeout = None\<rparr>"

definition detail_path :: "jsval \<Rightarrow> jsval \<Rightarrow> string" where
  "detail_path locale articleId =
     ''/help_center/'' @ to_string locale @ ''/articles/'' @ to_string articleId @ ''.json''"

text \<open>
  The record returned for a published article: \<open>article\<close> is the search hit,
  \<open>articleData\<close> its detail, neither of them \<^verbatim>\<open>null\<close> or \<^verbatim>\<open>undefined\<close> here, so
  that the reads do not throw.
\<close>

definition article_entry :: "jsval \<Rightarrow> jsval \<Rightarrow> jsval \<Rightarrow> jsval" where
  "article_entry article articleData publicUrl =
     JObj [(''id'', get articleData ''id''),
           (''title'', js_or (get article ''title'') (get articleData ''title'')),
           (''url'', publicUrl),
           (''snippet'', js_or (get article ''snippet'') (JStr [])),
           (''body'', get articleData ''body''),
           (''section_id'', get articleData ''section_id''),
           (''created_at'', get articleData ''created_at''),
           (''updated_at'', get articleData ''updated_at''),
           (''locale'', get articleData ''locale''),
           (''draft'', get articleData ''draft'')]"

text \<open>
  The body of the \<^verbatim>\<open>try\<close> in the callback mapped over the candidates: the detail is
  fetched, a draft is mapped to \<^verbatim>\<open>null\<close>, any other article to its record.
\<close>

definition fetch_detail ::
  "regexp \<Rightarrow> 'w remote \<Rightarrow> client \<Rightarrow> jsval \<Rightarrow> jsval \<Rightarrow> 'w world \<Rightarrow> (js_error + jsval) \<times> 'w world" where
  "fetch_detail regexp srv c locale article w =
     (case field article ''id'' of
        Inl e \<Rightarrow> (Inl e, w)
      | Inr articleId \<Rightarrow>
          (case axios srv (get_req (detail_path locale articleId)) w of
             (Inl e, w1) \<Rightarrow> (Inl e, w1)
           | (Inr data, w1) \<Rightarrow>
               (case field data ''article'' of
                  Inl e \<Rightarrow> (Inl e, w1)
                | Inr articleData \<Rightarrow>
                    (case field articleData ''draft'' of
                       Inl e \<Rightarrow> (Inl e, w1)
                     | Inr draft \<Rightarrow>
                         if draft = JBool True then (Inr JNull, w1)
                         else
                           (case convertToCustomUrl regexp c
                                   (js_or (get article ''html_url'') (get articleData ''html_url'')) of
                              Inl e \<Rightarrow> (Inl e, w1)
                            | Inr publicUrl \<Rightarrow>
                                (Inr (article_entry article articleData publicUrl), w1))))))"

text \<open>
  The callback with its \<^verbatim>\<open>catch\<close>: whatever the body throws is written to the console
  and mapped to \<^verbatim>\<open>null\<close>. The line written names \<^verbatim>\<open>article.id\<close>, so for a candidate
  that is \<^verbatim>\<open>null\<close> the handler throws in its turn and the callback is rejected.
\<close>

definition enrich ::
  "regexp \<Rightarrow> 'w remote \<Rightarrow> client \<Rightarrow> jsval \<Rightarrow> jsval \<Rightarrow> 'w world \<Rightarrow> (js_error + jsval) \<times> 'w world" where
  "enrich regexp srv c locale article w =
     (case fetch_detail regexp srv c locale article w of
        (Inr v, w1) \<Rightarrow> (Inr v, w1)
      | (Inl detailError, w1) \<Rightarrow>
          (case field article ''id'' of
             Inl e \<Rightarrow> (Inl e, w1)
           | Inr articleId \<Rightarrow>
               (Inr JNull,
                console_error [JStr (''Failed to fetch article '' @ to_string articleId @ '':''),
                               JStr (message detailError)] w1)))"

text \<open>
  \<^verbatim>\<open>candidates.map(callback)\<close> followed by \<^verbatim>\<open>Promise.all\<close>. Every callback runs up to its
  request when it is created, so the requests leave in the order of the candidates; the
  remote's state is threaded in that order, and the console lines are kept in that order.
  The outcomes come back in the order of the candidates whatever the order of completion;
  a rejected callback rejects the whole, the first in the list when there are several.
\<close>

fun fan_out ::
  "regexp \<Rightarrow> 'w remote \<Rightarrow> client \<Rightarrow> jsval \<Rightarrow> jsval list \<Rightarrow> 'w world \<Rightarrow> (js_error + jsval) list \<times> 'w world" where
  "fan_out regexp srv c locale [] w = ([], w)"
| "fan_out regexp srv c locale (article # rest) w =
     (case enrich regexp srv c locale article w of
        (r, w1) \<Rightarrow> (case fan_out regexp srv c locale rest w1 of (rs, w2) \<Rightarrow> (r # rs, w2)))"

fun promise_all :: "(js_error + 'a) list \<Rightarrow> js_error + 'a list" where
  "promise_all [] = Inr []"
| "promise_all (Inl e # rs) = Inl e"
| "promise_all (Inr v # rs) = (case promise_all rs of Inl e \<Rightarrow> Inl e | Inr vs \<Rightarrow> Inr (v # vs))"

text \<open>The body of the \<^verbatim>\<open>try\<close> of \<^verbatim>\<open>searchArticles\<close>.\<close>

definition search_and_enrich ::
  "regexp \<Rightarrow> 'w remote \<Rightarrow> client \<Rightarrow> jsval \<Rightarrow> jsval \<Rightarrow> 'w world \<Rightarrow> (js_error + jsval) \<times> 'w world" where
  "search_and_enrich regexp srv c query locale w =
     (case axios srv (search_req query locale) w of
        (Inl e, w1) \<Rightarrow> (Inl e, w1)
      | (Inr data, w1) \<Rightarrow>
          (case field data ''results'' of
             Inl e \<Rightarrow> (Inl e, w1)
           | Inr r \<Rightarrow>
               (let results = js_or r (JArr []) in
                if field results ''length'' = Inr (JNum 0) then
                  (Inr (JObj (empty_result @ [(''message'', JStr msg_no_results)])), w1)
                else
                  (case results of
                     JArr candidates \<Rightarrow>
                       (case fan_out regexp srv c locale (take 10 candidates) w1 of
                          (outcomes, w2) \<Rightarrow>
                            (case promise_all outcomes of
                               Inl e \<Rightarrow> (Inl e, w2)
                             | Inr articlesWithDetails \<Rightarrow>
                                 (let publicArticles = filter (\<lambda>a. a \<noteq> JNull) articlesWithDetails in
                                  if publicArticles = [] then
                                    (Inr (JObj (empty_result @ [(''message'', JStr msg_no_public)])), w2)
                                  else
                                    (Inr (JObj
                                       [(''results'', JArr (take 5 publicArticles)),
                                        (''count'', JNum (int (length publicArticles))),
                                        (''page'', js_or (get data ''page'') (JNum 1)),
                                        (''page_count'', js_or (get data ''page_count'') (JNum 1))]),
                                     w2))))
                   | JStr s \<Rightarrow> (Inl (TypeError ''results.slice(...).map is not a function''), w1)
                   | _ \<Rightarrow> (Inl (TypeError ''results.slice is not a function''), w1)))))"

text \<open>
  \<^verbatim>\<open>searchArticles\<close>: the parameter \<^verbatim>\<open>locale\<close> defaults to \<^verbatim>\<open>"ja"\<close> when it is
  \<^verbatim>\<open>undefined\<close>, and the \<^verbatim>\<open>catch\<close> turns whatever the body throws into a payload with
  an \<^verbatim>\<open>error\<close> member. The method never throws.
\<close>

definition error_message :: "js_error \<Rightarrow> jsval" where
  "error_message e =
     js_or (js_or (case response e of
                     None \<Rightarrow> JUndefined
                   | Some (status, data) \<Rightarrow>
                       if data = JNull \<or> data = JUndefined then JUndefined else get data ''error'')
                  (JStr (message e)))
           (JStr msg_unknown)"

definition error_status :: "js_error \<Rightarrow> jsval" where
  "error_status e = (case response e of None \<Rightarrow> JUndefined | Some (status, data) \<Rightarrow> status)"

definition default_locale :: "jsval \<Rightarrow> jsval" where
  "default_locale locale = (if locale = JUndefined then JStr ''ja'' else locale)"

definition searchArticles ::
  "regexp \<Rightarrow> 'w remote \<Rightarrow> client \<Rightarrow> jsval \<Rightarrow> jsval \<Rightarrow> 'w world \<Rightarrow> jsval \<times> 'w world" where
  "searchArticles regexp srv c query locale0 w =
     (let locale = default_locale locale0 in
      case search_and_enrich regexp srv c query locale w of
        (Inr payload, w1) \<Rightarrow> (payload, w1)
      | (Inl e, w1) \<Rightarrow>
          (JObj (empty_result @
                 [(''error'', JStr (msg_search_error @ to_string (error_message e) @ msg_status @
                                    to_string (error_status e) @ '')''))]),
           console_error
             [JStr ''Help Center search error:'',
              JObj [(''message'', error_message e), (''status'', error_status e),
                    (''query'', query), (''locale'', locale)]] w1))"

text \<open>
  For the statements below: the detail request of a candidate, and the outcomes of the
  callbacks that yield a record; then the runs of the callback, every candidate paired with
  the world in which its callback starts, the outcome of a run, the value that an outcome
  contributes to the collection, and the runs that yield a record.
\<close>

definition detail_req :: "jsval \<Rightarrow> jsval \<Rightarrow> request" where
  "detail_req locale article = get_req (detail_path locale (get article ''id''))"

definition survives :: "js_error + jsval \<Rightarrow> bool" where
  "survives r = (case r of Inl e \<Rightarrow> False | Inr v \<Rightarrow> v \<noteq> JNull)"

fun callback_worlds ::
  "regexp \<Rightarrow> 'w remote \<Rightarrow> client \<Rightarrow> jsval \<Rightarrow> jsval list \<Rightarrow> 'w world \<Rightarrow> 'w world list" where
  "callback_worlds regexp srv c locale [] w = []"
| "callback_worlds regexp srv c locale (article # rest) w =
     w # callback_worlds regexp srv c locale rest (snd (enrich regexp srv c locale article w))"

definition callbacks ::
  "regexp \<Rightarrow> 'w remote \<Rightarrow> client \<Rightarrow> jsval \<Rightarrow> jsval list \<Rightarrow> 'w world
     \<Rightarrow> (jsval \<times> 'w world) list" where
  "callbacks regexp srv c locale xs w = zip xs (callback_worlds regexp srv c locale xs w)"

definition outcome_of ::
  "regexp \<Rightarrow> 'w remote \<Rightarrow> client \<Rightarrow> jsval \<Rightarrow> jsval \<times> 'w world \<Rightarrow> js_error + jsval" where
  "outcome_of regexp srv c locale run = fst (enrich regexp srv c locale (fst run) (snd run))"

definition record_of :: "js_error + jsval \<Rightarrow> jsval" where
  "record_of r = (case r of Inl e \<Rightarrow> JNull | Inr v \<Rightarrow> v)"

definition surviving ::
  "regexp \<Rightarrow> 'w remote \<Rightarrow> client \<Rightarrow> jsval \<Rightarrow> jsval list \<Rightarrow> 'w world
     \<Rightarrow> (jsval \<times> 'w world) list" where
  "surviving regexp srv c locale xs w =
     filter (\<lambda>run. survives (outcome_of regexp srv c locale run))
       (callbacks regexp srv c locale xs w)"

section \<open>The other methods of the client\<close>

text \<open>
  \<^verbatim>\<open>searchTickets\<close>. The message of the \<^verbatim>\<open>catch\<close>, in UTF-8: "the search timed out;
  narrow the search condition". The parameter \<^verbatim>\<open>maxResults\<close> defaults to 100 when it is
  \<^verbatim>\<open>undefined\<close>.
\<close>

definition msg_timeout :: string where
  "msg_timeout =
     [CHR 0xE6, CHR 0xA4, CHR 0x9C, CHR 0xE7, CHR 0xB4, CHR 0xA2, CHR 0xE3, CHR 0x81,
      CHR 0x8C, CHR 0xE3, CHR 0x82, CHR 0xBF, CHR 0xE3, CHR 0x82, CHR 0xA4, CHR 0xE3,
      CHR 0x83, CHR 0xA0, CHR 0xE3, CHR 0x82, CHR 0xA2, CHR 0xE3, CHR 0x82, CHR 0xA6,
      CHR 0xE3, CHR 0x83, CHR 0x88, CHR 0xE3, CHR 0x81, CHR 0x97, CHR 0xE3, CHR 0x81,
      CHR 0xBE, CHR 0xE3, CHR 0x81, CHR 0x97, CHR 0xE3, CHR 0x81, CHR 0x9F, CHR 0xE3,
      CHR 0x80, CHR 0x82, CHR 0xE6, CHR 0xA4, CHR 0x9C, CHR 0xE7, CHR 0xB4, CHR 0xA2,
      CHR 0xE6, CHR 0x9D, CHR 0xA1, CHR 0xE4, CHR 0xBB, CHR 0xB6, CHR 0xE3, CHR 0x82,
      CHR 0x92, CHR 0xE7, CHR 0xB5, CHR 0x9E, CHR 0xE3, CHR 0x82, CHR 0x8A, CHR 0xE8,
      CHR 0xBE, CHR 0xBC, CHR 0xE3, CHR 0x82, CHR 0x93, CHR 0xE3, CHR 0x81, CHR 0xA7,
      CHR 0xE3, CHR 0x81, CHR 0x8F, CHR 0xE3, CHR 0x81, CHR 0xA0, CHR 0xE3, CHR 0x81,
      CHR 0x95, CHR 0xE3, CHR 0x81, CHR 0x84, CHR 0xE3, CHR 0x80, CHR 0x82]"

definition tickets_req :: "(string \<Rightarrow> int option) \<Rightarrow> jsval \<Rightarrow> jsval \<Rightarrow> request" where
  "tickets_req parse query maxResults =
     \<lparr>verb = GET, url = ''/search.json'',
      params = [(''query'', JStr (''type:ticket '' @ to_string query)),
                (''per_page'', num_val (math_min (to_number parse maxResults) (Some 100)))],
      body = JUndefined, timeout = Some 30000\<rparr>"

definition search_tickets_try ::
  "(string \<Rightarrow> int option) \<Rightarrow> 'w remote \<Rightarrow> jsval \<Rightarrow> jsval \<Rightarrow> 'w world
     \<Rightarrow> (js_error + jsval) \<times> 'w world" where
  "search_tickets_try parse srv query maxResults w =
     (case axios srv (tickets_req parse query maxResults) w of
        (Inl e, w1) \<Rightarrow> (Inl e, w1)
      | (Inr data, w1) \<Rightarrow>
          (case field data ''results'' of
             Inl e \<Rightarrow> (Inl e, w1)
           | Inr r \<Rightarrow>
               (case (case js_or r (JArr []) of
                        JArr xs \<Rightarrow>
                          (let l = slice0 xs (to_number parse maxResults)
                           in Inr (JArr l, int (length l)))
                      | JStr t \<Rightarrow>
                          (let l = slice0 t (to_number parse maxResults)
                           in Inr (JStr l, int (length l)))
                      | _ \<Rightarrow> Inl (TypeError ''results.slice is not a function'')) of
                  Inl e \<Rightarrow> (Inl e, w1)
                | Inr (limitedResults, len) \<Rightarrow>
                    (Inr (JObj
                       [(''results'', limitedResults),
                        (''count'', JNum len),
                        (''total_count'', js_or (get data ''count'') (JNum 0)),
                        (''next_page'', js_or (get data ''next_page'') JNull),
                        (''limited'',
                         JBool (case to_number parse (js_or (get data ''count'') (JNum 0)) of
                                  None \<Rightarrow> False
                                | Some n \<Rightarrow> len < n))]),
                     w1))))"

definition is_timeout :: "js_error \<Rightarrow> bool" where
  "is_timeout e = (code e = Some ''ECONNABORTED'' \<or> str_includes (message e) ''timeout'')"

definition timeout_result :: jsval where
  "timeout_result =
     JObj [(''results'', JArr []), (''count'', JNum 0), (''total_count'', JNum 0),
           (''error'', JStr msg_timeout)]"

definition searchTickets ::
  "(string \<Rightarrow> int option) \<Rightarrow> 'w remote \<Rightarrow> jsval \<Rightarrow> jsval \<Rightarrow> 'w world
     \<Rightarrow> (js_error + jsval) \<times> 'w world" where
  "searchTickets parse srv query maxResults0 w =
     (let maxResults = (if maxResults0 = JUndefined then JNum 100 else maxResults0) in
      case search_tickets_try parse srv query maxResults w of
        (Inr v, w1) \<Rightarrow> (Inr v, w1)
      | (Inl e, w1) \<Rightarrow> if is_timeout e then (Inr timeout_result, w1) else (Inl e, w1))"

text \<open>The methods that make one request and return the body of the response.\<close>

definition createTicket ::
  "'w remote \<Rightarrow> jsval \<Rightarrow> jsval \<Rightarrow> jsval \<Rightarrow> jsval \<Rightarrow> 'w world \<Rightarrow> (js_error + jsval) \<times> 'w world" where
  "createTicket srv subject comment priority tags w =
     axios srv
       \<lparr>verb = POST, url = ''/tickets.json'', params = [],
        body = JObj [(''ticket'',
                 JObj [(''subject'', subject),
                       (''comment'', JObj [(''body'', comment)]),
                       (''priority'', js_or priority (JStr ''normal'')),
                       (''tags'', js_or tags (JArr []))])],
        timeout = None\<rparr> w"

definition updateTicket ::
  "'w remote \<Rightarrow> jsval \<Rightarrow> jsval \<Rightarrow> 'w world \<Rightarrow> (js_error + jsval) \<times> 'w world" where
  "updateTicket srv ticketId updates w =
     axios srv
       \<lparr>verb = PUT, url = ticket_path ticketId, params = [],
        body = JObj [(''ticket'', updates)], timeout = None\<rparr> w"

definition addComment ::
  "'w remote \<Rightarrow> jsval \<Rightarrow> jsval \<Rightarrow> jsval \<Rightarrow> 'w world \<Rightarrow> (js_error + jsval) \<times> 'w world" where
  "addComment srv ticketId comment isPublic0 w =
     (let isPublic = (if isPublic0 = JUndefined then JBool True else isPublic0) in
      axios srv
        \<lparr>verb = PUT, url = ticket_path ticketId, params = [],
         body = JObj [(''ticket'',
                  JObj [(''comment'', JObj [(''body'', comment), (''public'', isPublic)])])],
         timeout = None\<rparr> w)"

definition search_of :: "string \<Rightarrow> jsval \<Rightarrow> request" where
  "search_of kind query =
     \<lparr>verb = GET, url = ''/search.json'',
      params = [(''query'', JStr (''type:'' @ kind @ '' '' @ to_string query))],
      body = JUndefined, timeout = None\<rparr>"

definition searchUsers :: "'w remote \<Rightarrow> jsval \<Rightarrow> 'w world \<Rightarrow> (js_error + jsval) \<times> 'w world" where
  "searchUsers srv query w = axios srv (search_of ''user'' query) w"

definition getUser :: "'w remote \<Rightarrow> jsval \<Rightarrow> 'w world \<Rightarrow> (js_error + jsval) \<times> 'w world" where
  "getUser srv userId w = axios srv (get_req (''/users/'' @ to_string userId @ ''.json'')) w"

definition searchOrganizations ::
  "'w remote \<Rightarrow> jsval \<Rightarrow> 'w world \<Rightarrow> (js_error + jsval) \<times> 'w world" where
  "searchOrganizations srv query w = axios srv (search_of ''organization'' query) w"

definition getOrganization ::
  "'w remote \<Rightarrow> jsval \<Rightarrow> 'w world \<Rightarrow> (js_error + jsval) \<times> 'w world" where
  "getOrganization srv orgId w =
     axios srv (get_req (''/organizations/'' @ to_string orgId @ ''.json'')) w"

text \<open>
  \<^verbatim>\<open>getArticle\<close> and \<^verbatim>\<open>getArticlesBySection\<close> write the failure to the console and
  throw it again.
\<close>

definition getArticle ::
  "'w remote \<Rightarrow> jsval \<Rightarrow> jsval \<Rightarrow> 'w world \<Rightarrow> (js_error + jsval) \<times> 'w world" where
  "getArticle srv articleId locale0 w =
     (case (case axios srv (get_req (detail_path (default_locale locale0) articleId)) w of
              (Inl e, w1) \<Rightarrow> (Inl e, w1)
            | (Inr data, w1) \<Rightarrow>
                (case field data ''article'' of
                   Inl e \<Rightarrow> (Inl e, w1)
                 | Inr a \<Rightarrow> (Inr (JObj [(''article'', a)]), w1))) of
        (Inr v, w1) \<Rightarrow> (Inr v, w1)
      | (Inl e, w1) \<Rightarrow>
          (Inl e,
           console_error [JStr (''Failed to fetch article '' @ to_string articleId @ '':''),
                          JStr (message e)] w1))"

definition getArticlesBySection ::
  "'w remote \<Rightarrow> jsval \<Rightarrow> jsval \<Rightarrow> 'w world \<Rightarrow> (js_error + jsval) \<times> 'w world" where
  "getArticlesBySection srv sectionId locale0 w =
     (case (case axios srv
                   (get_req (''/help_center/'' @ to_string (default_locale locale0) @ ''/sections/'' @
                             to_string sectionId @ ''/articles.json'')) w of
              (Inl e, w1) \<Rightarrow> (Inl e, w1)
            | (Inr data, w1) \<Rightarrow>
                (case field data ''articles'' of
                   Inl e \<Rightarrow> (Inl e, w1)
                 | Inr a \<Rightarrow> (Inr (JObj [(''articles'', a), (''count'', get data ''count'')]), w1))) of
        (Inr v, w1) \<Rightarrow> (Inr v, w1)
      | (Inl e, w1) \<Rightarrow>
          (Inl e,
           console_error [JStr (''Failed to fetch articles in section '' @ to_string sectionId @ '':''),
                          JStr (message e)] w1))"

section \<open>The tool dispatcher\<close>

text \<open>
  The response envelope: the text of its single content item, and the error flag, which
  is \<^verbatim>\<open>False\<close> where the source leaves \<^verbatim>\<open>isError\<close> out. \<^verbatim>\<open>JSON.stringify\<close> is the
  parameter \<open>stringify\<close>.
\<close>

record envelope =
  content_text :: jsval
  isError :: bool

definition msg_no_credentials :: string where
  "msg_no_credentials =
     ''Error: Zendesk credentials not configured. Please set ZENDESK_SUBDOMAIN, '' @
     ''ZENDESK_EMAIL, and ZENDESK_API_TOKEN environment variables.''"

text \<open>
  The \<^verbatim>\<open>switch\<close> of the handler of \<^verbatim>\<open>CallToolRequestSchema\<close> in \<^verbatim>\<open>index.ts\<close>: for
  every tool name it knows, the call it makes on the client with the arguments it reads.
  Every case wraps the result in the same way, which \<open>callTool\<close> does below.
\<close>

definition update_fields :: "jsval \<Rightarrow> jsval" where
  "update_fields args =
     JObj (concat (map (\<lambda>k. if truthy (get args k) then [(k, get args k)] else [])
                       [''status'', ''priority'', ''subject'', ''tags'']))"

definition tool_case ::
  "regexp \<Rightarrow> (string \<Rightarrow> int option) \<Rightarrow> 'w remote \<Rightarrow> client \<Rightarrow> string
     \<Rightarrow> (jsval \<Rightarrow> 'w world \<Rightarrow> ((js_error + jsval) \<times> 'w world) option) option" where
  "tool_case regexp parse srv c name =
     (if name = ''search_tickets'' then
        Some (\<lambda>args w. Some (searchTickets parse srv (get args ''query'')
                                 (js_or (get args ''max_results'') (JNum 100)) w))
      else if name = ''get_ticket'' then
        Some (\<lambda>args w. getTicket srv c (get args ''ticket_id'') w)
      else if name = ''create_ticket'' then
        Some (\<lambda>args w. Some (createTicket srv (get args ''subject'') (get args ''comment'')
                                 (get args ''priority'') (get args ''tags'') w))
      else if name = ''update_ticket'' then
        Some (\<lambda>args w. Some (updateTicket srv (get args ''ticket_id'') (update_fields args) w))
      else if name = ''add_comment'' then
        Some (\<lambda>args w. Some (addComment srv (get args ''ticket_id'') (get args ''comment'')
                                 (if get args ''is_public'' \<noteq> JUndefined then get args ''is_public''
                                  else JBool True) w))
      else if name = ''get_ticket_comments'' then
        Some (\<lambda>args w. getTicketComments srv c (get args ''ticket_id'') w)
      else if name = ''search_users'' then
        Some (\<lambda>args w. Some (searchUsers srv (get args ''query'') w))
      else if name = ''get_user'' then
        Some (\<lambda>args w. Some (getUser srv (get args ''user_id'') w))
      else if name = ''search_organizations'' then
        Some (\<lambda>args w. Some (searchOrganizations srv (get args ''query'') w))
      else if name = ''get_organization'' then
        Some (\<lambda>args w. Some (getOrganization srv (get args ''org_id'') w))
      else if name = ''search_articles'' then
        Some (\<lambda>args w.
          (case searchArticles regexp srv c (get args ''query'') (js_or (get args ''locale'') (JStr ''ja'')) w of
             (v, w1) \<Rightarrow> Some (Inr v, w1)))
      else if name = ''get_article'' then
        Some (\<lambda>args w. Some (getArticle srv (get args ''article_id'')
                                 (js_or (get args ''locale'') (JStr ''ja'')) w))
      else if name = ''get_articles_by_section'' then
        Some (\<lambda>args w. Some (getArticlesBySection srv (get args ''section_id'')
                                 (js_or (get args ''locale'') (JStr ''ja'')) w))
      else None)"

text \<open>
  The body of the \<^verbatim>\<open>try\<close> of the handler: the arguments must be there (truthy), then
  the tool is looked up and called. What a tool throws leaves the body as \<open>Inl\<close>.
\<close>

definition call_tool_try ::
  "regexp \<Rightarrow> (string \<Rightarrow> int option) \<Rightarrow> (jsval \<Rightarrow> jsval) \<Rightarrow> 'w remote \<Rightarrow> client \<Rightarrow> string
     \<Rightarrow> jsval
     \<Rightarrow> 'w world \<Rightarrow> ((js_error + envelope) \<times> 'w world) option" where
  "call_tool_try regexp parse stringify srv c name args w =
     (if \<not> truthy args then
        Some (Inr \<lparr>content_text = JStr ''Error: No arguments provided'', isError = True\<rparr>, w)
      else
        (case tool_case regexp parse srv c name of
           None \<Rightarrow>
             Some (Inr \<lparr>content_text = JStr (''Unknown tool: '' @ name), isError = True\<rparr>, w)
         | Some run \<Rightarrow>
             (case run args w of
                None \<Rightarrow> None
              | Some (Inl e, w1) \<Rightarrow> Some (Inl e, w1)
              | Some (Inr result, w1) \<Rightarrow>
                  Some (Inr \<lparr>content_text = stringify result, isError = False\<rparr>, w1))))"

text \<open>
  The handler: without a client (the credentials are not configured) it answers at once;
  otherwise it runs the body and turns whatever the body throws into an envelope.
\<close>

definition callTool ::
  "regexp \<Rightarrow> (string \<Rightarrow> int option) \<Rightarrow> (jsval \<Rightarrow> jsval) \<Rightarrow> 'w remote \<Rightarrow> client option
     \<Rightarrow> string \<Rightarrow> jsval
     \<Rightarrow> 'w world \<Rightarrow> ((js_error + envelope) \<times> 'w world) option" where
  "callTool regexp parse stringify srv zendeskClient name args w =
     (case zendeskClient of
        None \<Rightarrow> Some (Inr \<lparr>content_text = JStr msg_no_credentials, isError = False\<rparr>, w)
      | Some c \<Rightarrow>
          (case call_tool_try regexp parse stringify srv c name args w of
             None \<Rightarrow> None
           | Some (Inr env, w1) \<Rightarrow> Some (Inr env, w1)
           | Some (Inl e, w1) \<Rightarrow>
               Some (Inr \<lparr>content_text = JStr (''Error: '' @ message e), isError = True\<rparr>, w1)))"

text \<open>
  For the statements below: the case labels of the \<^verbatim>\<open>switch\<close>, and a run of pages after
  which the remote fails: it serves \<open>pages\<close> as in \<open>serves\<close>, each with a continuation
  reference, and answers the request for the page after them with the error \<open>e\<close>.
\<close>

definition tool_names :: "string list" where
  "tool_names =
     [''search_tickets'', ''get_ticket'', ''create_ticket'', ''update_ticket'', ''add_comment'',
      ''get_ticket_comments'', ''search_users'', ''get_user'', ''search_organizations'',
      ''get_organization'', ''search_articles'', ''get_article'', ''get_articles_by_section'']"

fun fails_after :: "'w remote \<Rightarrow> client \<Rightarrow> string \<Rightarrow> 'w \<Rightarrow> jsval list list \<Rightarrow> js_error \<Rightarrow> bool" where
  "fails_after srv c u s [] e = (fst (srv s (get_req u)) = Inl e)"
| "fails_after srv c u s (p # ps) e =
     (case srv s (get_req u) of
        (Inl e', s1) \<Rightarrow> False
      | (Inr data, s1) \<Rightarrow>
          field data ''comments'' = Inr (JArr p) \<and>
          (case field data ''next_page'' of
             Inr (JStr n) \<Rightarrow>
               n \<noteq> [] \<and> n \<noteq> baseURL c \<and>
               fails_after srv c (replace_first (baseURL c) [] n) s1 ps e
           | _ \<Rightarrow> False))"

section \<open>The HTTP server\<close>

text \<open>
  \<^verbatim>\<open>server.ts\<close> has a client of its own, whose methods make one request each and return
  the body of the response. Those that differ from the methods above are primed; the others
  are the same text.
\<close>

definition searchTickets' :: "'w remote \<Rightarrow> jsval \<Rightarrow> 'w world \<Rightarrow> (js_error + jsval) \<times> 'w world" where
  "searchTickets' srv query w = axios srv (search_of ''ticket'' query) w"

definition getTicket' :: "'w remote \<Rightarrow> jsval \<Rightarrow> 'w world \<Rightarrow> (js_error + jsval) \<times> 'w world" where
  "getTicket' srv ticketId w = axios srv (get_req (ticket_path ticketId)) w"

definition getTicketComments' ::
  "'w remote \<Rightarrow> jsval \<Rightarrow> 'w world \<Rightarrow> (js_error + jsval) \<times> 'w world" where
  "getTicketComments' srv ticketId w =
     axios srv (get_req (''/tickets/'' @ to_string ticketId @ ''/comments.json'')) w"

text \<open>
  \<^verbatim>\<open>executeTool\<close>. Its arguments come unchecked from the caller; the first member read
  throws when they are \<^verbatim>\<open>null\<close> or \<^verbatim>\<open>undefined\<close>, and no later read can.
\<close>

definition executeTool ::
  "'w remote \<Rightarrow> client option \<Rightarrow> string \<Rightarrow> jsval \<Rightarrow> 'w world \<Rightarrow> (js_error + jsval) \<times> 'w world" where
  "executeTool srv zendeskClient name args w =
     (case zendeskClient of
        None \<Rightarrow> (Inl (JsError ''Zendesk credentials not configured''), w)
      | Some c \<Rightarrow>
          if name = ''search_tickets'' then
            (case field args ''query'' of
               Inl e \<Rightarrow> (Inl e, w) | Inr q \<Rightarrow> searchTickets' srv q w)
          else if name = ''get_ticket'' then
            (case field args ''ticket_id'' of
               Inl e \<Rightarrow> (Inl e, w) | Inr t \<Rightarrow> getTicket' srv t w)
          else if name = ''create_ticket'' then
            (case field args ''subject'' of
               Inl e \<Rightarrow> (Inl e, w)
             | Inr subject \<Rightarrow>
                 createTicket srv subject (get args ''comment'') (get args ''priority'')
                   (get args ''tags'') w)
          else if name = ''update_ticket'' then
            (case field args ''status'' of
               Inl e \<Rightarrow> (Inl e, w)
             | Inr st \<Rightarrow> updateTicket srv (get args ''ticket_id'') (update_fields args) w)
          else if name = ''add_comment'' then
            (case field args ''ticket_id'' of
               Inl e \<Rightarrow> (Inl e, w)
             | Inr t \<Rightarrow>
                 addComment srv t (get args ''comment'')
                   (if get args ''is_public'' = JNull \<or> get args ''is_public'' = JUndefined
                    then JBool True else get args ''is_public'') w)
          else if name = ''get_ticket_comments'' then
            (case field args ''ticket_id'' of
               Inl e \<Rightarrow> (Inl e, w) | Inr t \<Rightarrow> getTicketComments' srv t w)
          else if name = ''search_users'' then
            (case field args ''query'' of
               Inl e \<Rightarrow> (Inl e, w) | Inr q \<Rightarrow> searchUsers srv q w)
          else if name = ''get_user'' then
            (case field args ''user_id'' of
               Inl e \<Rightarrow> (Inl e, w) | Inr u \<Rightarrow> getUser srv u w)
          else if name = ''search_organizations'' then
            (case field args ''query'' of
               Inl e \<Rightarrow> (Inl e, w) | Inr q \<Rightarrow> searchOrganizations srv q w)
          else if name = ''get_organization'' then
            (case field args ''org_id'' of
               Inl e \<Rightarrow> (Inl e, w) | Inr org \<Rightarrow> getOrganization srv org w)
          else (Inl (JsError (''Unknown tool: '' @ name)), w))"

text \<open>
  The handler of \<^verbatim>\<open>CallToolRequestSchema\<close> in \<^verbatim>\<open>server.ts\<close>. No method of this client
  iterates, so the handler is a total function.
\<close>

definition callTool' ::
  "(jsval \<Rightarrow> jsval) \<Rightarrow> 'w remote \<Rightarrow> client option \<Rightarrow> string \<Rightarrow> jsval \<Rightarrow> 'w world
     \<Rightarrow> (js_error + envelope) \<times> 'w world" where
  "callTool' stringify srv zendeskClient name args w =
     (case zendeskClient of
        None \<Rightarrow> (Inr \<lparr>content_text = JStr msg_no_credentials, isError = True\<rparr>, w)
      | Some c \<Rightarrow>
          (case (if \<not> truthy args then
                   (Inr \<lparr>content_text = JStr ''Error: No arguments provided'', isError = True\<rparr>, w)
                 else
                   (case executeTool srv zendeskClient name args w of
                      (Inl e, w1) \<Rightarrow> (Inl e, w1)
                    | (Inr result, w1) \<Rightarrow>
                        (Inr \<lparr>content_text = stringify result, isError = False\<rparr>, w1))) of
             (Inr env, w1) \<Rightarrow> (Inr env, w1)
           | (Inl e, w1) \<Rightarrow>
               (Inr \<lparr>content_text = JStr (''Error: '' @ message e), isError = True\<rparr>, w1)))"

text \<open>The case labels of \<^verbatim>\<open>executeTool\<close>.\<close>

definition tool_names' :: "string list" where
  "tool_names' =
     [''search_tickets'', ''get_ticket'', ''create_ticket'', ''update_ticket'', ''add_comment'',
      ''get_ticket_comments'', ''search_users'', ''get_user'', ''search_organizations'',
      ''get_organization'']"

text \<open>
  The session table \<^verbatim>\<open>transports\<close> is an ordinary object used as a dictionary. Reading
  \<^verbatim>\<open>transports[sessionId]\<close> finds the transport stored under that identifier if there is
  one; otherwise the read goes on to the prototype of the object, where the names below
  are defined, every one of them with a truthy value that is no transport; only for any
  other name it is \<^verbatim>\<open>undefined\<close>.
\<close>

definition object_prototype_keys :: "string list" where
  "object_prototype_keys =
     [''constructor'', ''__defineGetter__'', ''__defineSetter__'', ''hasOwnProperty'',
      ''__lookupGetter__'', ''__lookupSetter__'', ''isPrototypeOf'', ''propertyIsEnumerable'',
      ''toString'', ''valueOf'', ''__proto__'', ''toLocaleString'']"

datatype 't found = Own 't | Inherited | Missing

definition transports_get :: "(string \<rightharpoonup> 't) \<Rightarrow> string \<Rightarrow> 't found" where
  "transports_get transports sessionId =
     (case transports sessionId of
        Some t \<Rightarrow> Own t
      | None \<Rightarrow> if sessionId \<in> set object_prototype_keys then Inherited else Missing)"

text \<open>
  A request to \<^verbatim>\<open>/mcp\<close>: the header \<^verbatim>\<open>mcp-session-id\<close> if there is one, the method, and
  the parsed body. A response written by the endpoint itself is a status and a JSON body;
  \<open>Served\<close> is whatever the transport wrote, and \<open>Aborted\<close> a response the transport had
  begun when it threw.
\<close>

record http_request =
  session_header :: "string option"
  http_method :: string
  http_body :: jsval

datatype 'r http_response = Json nat jsval | Served 'r | Aborted

definition isInitializeRequest :: "jsval \<Rightarrow> bool" where
  "isInitializeRequest body0 =
     (truthy body0 \<and> get body0 ''jsonrpc'' = JStr ''2.0'' \<and> get body0 ''method'' = JStr ''initialize'' \<and>
      get body0 ''params'' \<noteq> JUndefined)"

definition rpc_error :: "int \<Rightarrow> string \<Rightarrow> jsval" where
  "rpc_error n msg =
     JObj [(''jsonrpc'', JStr ''2.0''),
           (''error'', JObj [(''code'', JNum n), (''message'', JStr msg)]),
           (''id'', JNull)]"

text \<open>
  The transport belongs to the SDK. What the endpoint needs of it are two parameters:
  \<open>fresh\<close>, the outcome of creating a transport and connecting a new server to it, and
  \<open>handleRequest\<close>, which answers a request on a transport: the callbacks it fires, in
  order, and then either what it wrote or the error it threw together with
  \<^verbatim>\<open>res.headersSent\<close>. The two callbacks are those the endpoint installs:
  \<^verbatim>\<open>onsessioninitialized\<close> stores the transport under the new identifier, \<^verbatim>\<open>onclose\<close>
  deletes the entry of the transport's identifier, when it has one.
\<close>

datatype event = Initialized string | Closed "string option"

fun on_event :: "'t \<Rightarrow> (string \<rightharpoonup> 't) \<Rightarrow> event \<Rightarrow> (string \<rightharpoonup> 't)" where
  "on_event t transports (Initialized sid) = transports(sid \<mapsto> t)"
| "on_event t transports (Closed None) = transports"
| "on_event t transports (Closed (Some sid)) = transports(sid := None)"

definition mcp_endpoint ::
  "(js_error + 't) \<Rightarrow> ('t \<Rightarrow> http_request \<Rightarrow> event list \<times> (js_error \<times> bool + 'r))
     \<Rightarrow> (string \<rightharpoonup> 't) \<Rightarrow> http_request \<Rightarrow> 'r http_response \<times> (string \<rightharpoonup> 't)" where
  "mcp_endpoint fresh handleRequest transports req =
     (let transport0 =
            (case session_header req of
               None \<Rightarrow> Missing
             | Some sessionId \<Rightarrow> if sessionId = [] then Missing else transports_get transports sessionId)
      in
      case (if transport0 = Missing \<and> http_method req = ''POST'' \<and> isInitializeRequest (http_body req)
            then (case fresh of Inl e \<Rightarrow> Inl e | Inr t \<Rightarrow> Inr (Own t))
            else Inr transport0) of
        Inl e \<Rightarrow> (Json 500 (rpc_error (- 32603) (message e)), transports)
      | Inr Missing \<Rightarrow>
          (Json 400 (rpc_error (- 32000) ''Bad Request: No valid session or initialize request''),
           transports)
      | Inr Inherited \<Rightarrow>
          (Json 500 (rpc_error (- 32603) ''transport.handleRequest is not a function''), transports)
      | Inr (Own t) \<Rightarrow>
          (case handleRequest t req of
             (events, outcome) \<Rightarrow>
               (case outcome of
                  Inr r \<Rightarrow> Served r
                | Inl (e, headersSent) \<Rightarrow>
                    if headersSent then Aborted else Json 500 (rpc_error (- 32603) (message e)),
                foldl (on_event t) transports events)))"

section \<open>Example remotes\<close>

text \<open>
  A remote without state that answers a request by looking its URL up in a table and
  fails with a 404 on any other; a client of the subdomain \<^verbatim>\<open>acme\<close>; and the comments
  of ticket 7 in two pages.
\<close>

definition lookup_remote :: "(string \<times> jsval) list \<Rightarrow> unit remote" where
  "lookup_remote tbl s rq =
     (case map_of tbl (url rq) of
        None \<Rightarrow> (Inl (AxiosError ''Request failed with status code 404'' (Some ''ERR_BAD_REQUEST'')
                       (Some (JNum 404, JNull))), s)
      | Some d \<Rightarrow> (Inr d, s))"

definition acme :: client where
  "acme = ZendeskClient ''acme'' None"

definition ticket7 :: "(string \<times> jsval) list" where
  "ticket7 =
     [(''/tickets/7.json'', JObj [(''ticket'', JObj [(''id'', JNum 7)])]),
      (''/tickets/7/comments.json?sort_order=asc'',
         JObj [(''comments'', JArr [JStr ''a'', JStr ''b'']),
               (''next_page'', JStr ''https://acme.zendesk.com/api/v2/tickets/7/comments.json?page=2'')]),
      (''/tickets/7/comments.json?page=2'',
         JObj [(''comments'', JArr [JStr ''c'']), (''next_page'', JNull)])]"

definition world0 :: "unit world" where
  "world0 = \<lparr>server = (), sent = [], console = []\<rparr>"

text \<open>
  Ticket 7 again, its only page of comments carrying the bare base URL as continuation
  reference.
\<close>

definition bare7 :: "(string \<times> jsval) list" where
  "bare7 =
     [(''/tickets/7/comments.json?sort_order=asc'',
         JObj [(''comments'', JArr [JStr ''a'']),
               (''next_page'', JStr ''https://acme.zendesk.com/api/v2'')])]"

text \<open>A client with a help-center URL of its own.\<close>

definition acme_help :: client where
  "acme_help = ZendeskClient ''acme'' (Some ''https://help.acme.com'')"

text \<open>
  A help center: a search that finds four articles, of which the second is a draft and the
  third cannot be fetched; the payload and the world \<^verbatim>\<open>searchArticles\<close> ends with when
  it runs against it; a help center where the search finds nothing; one where it finds
  only the draft and the article that cannot be fetched; and two whose search answers with
  a hit that is \<^verbatim>\<open>null\<close>, after an article that can be fetched and after one that
  cannot, with the error that reading \<^verbatim>\<open>id\<close> of \<^verbatim>\<open>null\<close> throws.
\<close>

definition hit :: "int \<Rightarrow> jsval" where
  "hit n =
     JObj [(''id'', JNum n), (''title'', JStr (''Article '' @ show_int n)),
           (''html_url'', JStr (''https://acme.zendesk.com/hc/ja/articles/'' @ show_int n)),
           (''snippet'', JStr ''...'')]"

definition detail :: "int \<Rightarrow> bool \<Rightarrow> jsval" where
  "detail n d = JObj [(''id'', JNum n), (''draft'', JBool d), (''body'', JStr ''text'')]"

definition help_search :: jsval where
  "help_search = JObj [(''results'', JArr [hit 1, hit 2, hit 3, hit 4]), (''page'', JNum 1),
                       (''page_count'', JNum 1)]"

definition help_center :: "(string \<times> jsval) list" where
  "help_center =
     [(''/help_center/articles/search.json'', help_search),
      (''/help_center/ja/articles/1.json'', JObj [(''article'', detail 1 False)]),
      (''/help_center/ja/articles/2.json'', JObj [(''article'', detail 2 True)]),
      (''/help_center/ja/articles/4.json'', JObj [(''article'', detail 4 False)])]"

definition help_payload :: jsval where
  "help_payload =
     JObj [(''results'',
            JArr [article_entry (hit 1) (detail 1 False) (JStr ''https://help.acme.com/hc/ja/articles/1''),
                  article_entry (hit 4) (detail 4 False) (JStr ''https://help.acme.com/hc/ja/articles/4'')]),
           (''count'', JNum 2), (''page'', JNum 1), (''page_count'', JNum 1)]"

definition help_world :: "unit world" where
  "help_world =
     \<lparr>server = (),
      sent = [search_req (JStr ''login'') (JStr ''ja''),
              get_req ''/help_center/ja/articles/1.json'', get_req ''/help_center/ja/articles/2.json'',
              get_req ''/help_center/ja/articles/3.json'', get_req ''/help_center/ja/articles/4.json''],
      console = [[JStr ''Failed to fetch article 3:'', JStr ''Request failed with status code 404'']]\<rparr>"

definition help_none :: "(string \<times> jsval) list" where
  "help_none = [(''/help_center/articles/search.json'', JObj [(''results'', JArr [])])]"

definition help_drafts :: "(string \<times> jsval) list" where
  "help_drafts =
     [(''/help_center/articles/search.json'', JObj [(''results'', JArr [hit 2, hit 3])]),
      (''/help_center/ja/articles/2.json'', JObj [(''article'', detail 2 True)])]"

definition help_null :: "(string \<times> jsval) list" where
  "help_null =
     [(''/help_center/articles/search.json'', JObj [(''results'', JArr [hit 1, JNull])]),
      (''/help_center/ja/articles/1.json'', JObj [(''article'', detail 1 False)])]"

definition help_lost :: "(string \<times> jsval) list" where
  "help_lost = [(''/help_center/articles/search.json'', JObj [(''results'', JArr [hit 3, JNull])])]"

definition null_read :: js_error where
  "null_read =
     TypeError (''Cannot read properties of null (reading '' @ [CHR 0x27] @ ''id'' @ [CHR 0x27] @ '')'')"

text \<open>
  A remote that serves one more page of comments for ever; one whose every request fails
  with a given error; a request aborted, which has the code \<^verbatim>\<open>ECONNABORTED\<close> and no
  \<^verbatim>\<open>timeout\<close> in its message, and a timeout reported with another code; ticket 7 with
  its second page of comments missing; the error of the remotes that look up a table; a
  reading of strings as numbers that reads none, a rendering of results as text, and an
  engine that accepts no regular expression, to stand for the parameters of the dispatcher
  (the clients of the examples are literal, so that the engine is never asked).
\<close>

definition endless :: "unit remote" where
  "endless s rq = (Inr (JObj [(''comments'', JArr []), (''next_page'', JStr ''/more'')]), s)"

definition failing :: "js_error \<Rightarrow> unit remote" where
  "failing e s rq = (Inl e, s)"

definition aborted :: js_error where
  "aborted = AxiosError ''Request aborted'' (Some ''ECONNABORTED'') None"

definition timed_out :: js_error where
  "timed_out = AxiosError ''timeout of 30000ms exceeded'' (Some ''ETIMEDOUT'') None"

definition broken7 :: "(string \<times> jsval) list" where
  "broken7 = take 2 ticket7"

definition not_found :: js_error where
  "not_found =
     AxiosError ''Request failed with status code 404'' (Some ''ERR_BAD_REQUEST'')
       (Some (JNum 404, JNull))"

definition no_parse :: "string \<Rightarrow> int option" where
  "no_parse s = None"

definition as_text :: "jsval \<Rightarrow> jsval" where
  "as_text v = JStr (to_string v)"

definition no_regexp :: regexp where
  "no_regexp source = Inl (JsError (''Invalid regular expression: /'' @ source @ ''/''))"

section \<open>Properties\<close>

subsection \<open>Pagination\<close>

lemma replace_first_Nil_iff: "replace_first b [] n = [] \<longleftrightarrow> n = [] \<or> n = b"
proof (induction n)
  case Nil
  then show ?case by auto
next
  case (Cons a n)
  show ?case
  proof (cases "prefix b (a # n)")
    case True
    then obtain r where r: "a # n = b @ r" by (auto simp: prefix_def)
    have "replace_first b [] (a # n) = drop (length b) (a # n)" using True by simp
    also have "\<dots> = r" by (simp add: r)
    finally show ?thesis using r by auto
  next
    case False
    then show ?thesis by auto
  qed
qed

lemma comments_loop_serves:
  "serves srv c u (server w) pages \<Longrightarrow> u \<noteq> [] \<Longrightarrow>
   \<exists>w'. comments_loop srv c (Some u) acc w = Some (Inr (acc @ concat pages), w')"
proof (induction pages arbitrary: u acc w)
  case Nil
  then show ?case by simp
next
  case (Cons p ps)
  obtain r s1 where srv: "srv (server w) (get_req u) = (r, s1)" by (cases "srv (server w) (get_req u)")
  with Cons.prems obtain data where r: "r = Inr data" by (cases r) auto
  let ?w1 = "w\<lparr>server := s1, sent := sent w @ [get_req u]\<rparr>"
  have ax: "axios srv (get_req u) w = (Inr data, ?w1)" by (simp add: axios_def srv r)
  from Cons.prems srv r have cs: "field data ''comments'' = Inr (JArr p)" by simp
  from Cons.prems srv r obtain np where np: "field data ''next_page'' = Inr np"
    by (cases "field data ''next_page''") auto
  show ?case
  proof (cases "\<exists>n. np = JStr n \<and> n \<noteq> []")
    case True
    then obtain n where n: "np = JStr n" "n \<noteq> []" by blast
    with Cons.prems srv r np have nb: "n \<noteq> baseURL c" and ps: "ps \<noteq> []"
      and sv: "serves srv c (replace_first (baseURL c) [] n) (server ?w1) ps" by auto
    have ne: "replace_first (baseURL c) [] n \<noteq> []" using n nb by (simp add: replace_first_Nil_iff)
    from Cons.IH[OF sv ne, of "acc @ p"] obtain w' where
      "comments_loop srv c (Some (replace_first (baseURL c) [] n)) (acc @ p) ?w1 =
         Some (Inr ((acc @ p) @ concat ps), w')" by blast
    then show ?thesis
      using Cons.prems(2) ax cs np n
      by (subst comments_loop.simps) (simp add: next_page_url_def)
  next
    case False
    with Cons.prems srv r np have ps: "ps = []" and f: "\<not> truthy np"
      by (cases np; auto split: if_splits)+
    have "comments_loop srv c None (acc @ p) ?w1 = Some (Inr (acc @ p), ?w1)"
      by (subst comments_loop.simps) simp
    then show ?thesis
      using Cons.prems(2) ax cs np f ps
      by (subst comments_loop.simps) (simp add: next_page_url_def)
  qed
qed

text \<open>
  C1. Whenever the remote serves a well-formed run of comment pages, \<^verbatim>\<open>getTicketComments\<close>
  returns, its \<^verbatim>\<open>comments\<close> are the pages' comment arrays concatenated in the order
  fetched, and its \<^verbatim>\<open>count\<close> is the sum of the page lengths; the loop of \<^verbatim>\<open>getTicket\<close>,
  run after the ticket itself is fetched, returns the same list as \<^verbatim>\<open>comments\<close> and the
  same sum as \<^verbatim>\<open>total_comments\<close>.
\<close>

theorem pagination_concatenates:
  "(serves srv c (comments_path tid) (server w) pages \<longrightarrow>
      map_option fst (getTicketComments srv c tid w) =
        Some (Inr (JObj [(''comments'', JArr (concat pages)),
                         (''count'', JNum (int (sum_list (map length pages))))]))) \<and>
   (srv (server w) (get_req (ticket_path tid)) = (Inr td, s1) \<and> field td ''ticket'' = Inr t \<and>
    serves srv c (comments_path tid) s1 pages \<longrightarrow>
      map_option fst (getTicket srv c tid w) =
        Some (Inr (JObj [(''ticket'', t), (''comments'', JArr (concat pages)),
                         (''total_comments'', JNum (int (sum_list (map length pages))))])))"
proof (intro conjI impI)
  have ne: "comments_path tid \<noteq> []" by (simp add: comments_path_def)
  {
    assume "serves srv c (comments_path tid) (server w) pages"
    from comments_loop_serves[OF this ne, of "[]"] obtain w' where
      "comments_loop srv c (Some (comments_path tid)) [] w = Some (Inr (concat pages), w')" by auto
    then show "map_option fst (getTicketComments srv c tid w) =
        Some (Inr (JObj [(''comments'', JArr (concat pages)),
                         (''count'', JNum (int (sum_list (map length pages))))]))"
      by (simp add: getTicketComments_def length_concat)
  }
  {
    assume a: "srv (server w) (get_req (ticket_path tid)) = (Inr td, s1) \<and>
      field td ''ticket'' = Inr t \<and> serves srv c (comments_path tid) s1 pages"
    let ?w1 = "w\<lparr>server := s1, sent := sent w @ [get_req (ticket_path tid)]\<rparr>"
    have ax: "axios srv (get_req (ticket_path tid)) w = (Inr td, ?w1)"
      using a by (simp add: axios_def)
    have "serves srv c (comments_path tid) (server ?w1) pages" using a by simp
    from comments_loop_serves[OF this ne, of "[]"] obtain w' where
      "comments_loop srv c (Some (comments_path tid)) [] ?w1 = Some (Inr (concat pages), w')"
      by auto
    then show "map_option fst (getTicket srv c tid w) =
        Some (Inr (JObj [(''ticket'', t), (''comments'', JArr (concat pages)),
                         (''total_comments'', JNum (int (sum_list (map length pages))))]))"
      using a ax by (simp add: getTicket_def length_concat)
  }
qed

theorem pagination_concatenates_witness:
  "serves (lookup_remote ticket7) acme (comments_path (JNum 7)) (server world0)
     [[JStr ''a'', JStr ''b''], [JStr ''c'']] \<and>
   lookup_remote ticket7 (server world0) (get_req (ticket_path (JNum 7))) =
     (Inr (JObj [(''ticket'', JObj [(''id'', JNum 7)])]), ()) \<and>
   field (JObj [(''ticket'', JObj [(''id'', JNum 7)])]) ''ticket'' = Inr (JObj [(''id'', JNum 7)]) \<and>
   map_option fst (getTicketComments (lookup_remote ticket7) acme (JNum 7) world0) =
     Some (Inr (JObj [(''comments'', JArr [JStr ''a'', JStr ''b'', JStr ''c'']), (''count'', JNum 3)])) \<and>
   map_option fst (getTicket (lookup_remote ticket7) acme (JNum 7) world0) =
     Some (Inr (JObj [(''ticket'', JObj [(''id'', JNum 7)]),
                      (''comments'', JArr [JStr ''a'', JStr ''b'', JStr ''c'']),
                      (''total_comments'', JNum 3)]))"
  using pagination_concatenates [of "lookup_remote ticket7" acme "JNum 7" world0
      "[[JStr ''a'', JStr ''b''], [JStr ''c'']]" "JObj [(''ticket'', JObj [(''id'', JNum 7)])]" "()"
      "JObj [(''id'', JNum 7)]"]
  by (simp add: comments_path_def ticket_path_def show_int_def digits.simps digit_def lookup_remote_def
      ticket7_def get_req_def acme_def ZendeskClient_def world0_def)

lemma comments_loop_sent:
  "comments_loop srv c nxt acc w = Some y \<Longrightarrow>
   prefix (sent w) (sent (snd y)) \<and>
   (\<forall>u. nxt = Some u \<and> u \<noteq> [] \<longrightarrow> prefix (sent w @ [get_req u]) (sent (snd y)))"
proof (induction rule: comments_loop.raw_induct[rotated 1, consumes 1])
  case (1 loop srv c nxt acc w y)
  show ?case
  proof (cases "\<exists>u. nxt = Some u \<and> u \<noteq> []")
    case False
    with 1(2) show ?thesis by (auto split: option.splits if_splits)
  next
    case True
    then obtain u where u: "nxt = Some u" "u \<noteq> []" by blast
    obtain r w1 where ax: "axios srv (get_req u) w = (r, w1)" by (cases "axios srv (get_req u) w")
    then have s1: "sent w1 = sent w @ [get_req u]"
      by (auto simp: axios_def split: prod.splits)
    have "prefix (sent w1) (sent (snd y))"
    proof (cases "\<exists>data cs items np. r = Inr data \<and> field data ''comments'' = Inr cs \<and> spread cs = Inr items
        \<and> next_page_url c data = Inr np")
      case True
      then obtain data cs items np where d: "r = Inr data" "field data ''comments'' = Inr cs"
        "spread cs = Inr items" "next_page_url c data = Inr np" by blast
      with 1(2) u ax have "loop srv c np (acc @ items) w1 = Some y" by simp
      from 1(1)[OF this] show ?thesis by simp
    next
      case False
      with 1(2) u ax have "snd y = w1"
        by (auto split: sum.splits)
      then show ?thesis by simp
    qed
    with s1 u show ?thesis by (auto dest: append_prefixD)
  qed
qed

lemma replace_first_prefix: "prefix b s \<Longrightarrow> replace_first b rep s = rep @ drop (length b) s"
  by (cases s) auto

lemma replace_first_strip: "replace_first b [] (b @ rest) = rest"
  by (simp add: replace_first_prefix)

text \<open>
  C7 (as amended). After a well-formed page, a continuation reference that begins with the
  configured base URL is stripped of that prefix, and the remainder is the URL the loop
  requests next. The loop returns right after the page exactly when the page carries no
  truthy continuation reference or carries the bare base URL, which strips to the empty
  path.
\<close>

theorem continuation_step:
  assumes "u \<noteq> []"
    and "axios srv (get_req u) w = (Inr data, w1)"
    and "field data ''comments'' = Inr (JArr items)"
    and "field data ''next_page'' = Inr np"
  shows "(\<forall>rest. np = JStr (baseURL c @ rest) \<and> rest \<noteq> [] \<longrightarrow>
            comments_loop srv c (Some u) acc w = comments_loop srv c (Some rest) (acc @ items) w1 \<and>
            (\<forall>y. comments_loop srv c (Some u) acc w = Some y \<longrightarrow>
                 prefix (sent w @ [get_req u, get_req rest]) (sent (snd y)))) \<and>
         (comments_loop srv c (Some u) acc w = Some (Inr (acc @ items), w1) \<longleftrightarrow>
            \<not> truthy np \<or> np = JStr (baseURL c))"
proof (intro conjI allI impI)
  have w1: "sent w1 = sent w @ [get_req u]"
    using assms(2) by (auto simp: axios_def split: prod.splits)
  {
    fix rest assume r: "np = JStr (baseURL c @ rest) \<and> rest \<noteq> []"
    then have nx: "next_page_url c data = Inr (Some rest)"
      using assms(4) by (simp add: next_page_url_def replace_first_strip)
    show eq: "comments_loop srv c (Some u) acc w = comments_loop srv c (Some rest) (acc @ items) w1"
      using assms nx by (subst comments_loop.simps) simp
    fix y assume "comments_loop srv c (Some u) acc w = Some y"
    then have "comments_loop srv c (Some rest) (acc @ items) w1 = Some y" using eq by simp
    from comments_loop_sent[OF this] r have "prefix (sent w1 @ [get_req rest]) (sent (snd y))" by simp
    then show "prefix (sent w @ [get_req u, get_req rest]) (sent (snd y))" using w1 by simp
  }
  show "comments_loop srv c (Some u) acc w = Some (Inr (acc @ items), w1) \<longleftrightarrow>
            \<not> truthy np \<or> np = JStr (baseURL c)"
  proof (cases "truthy np")
    case False
    then have "next_page_url c data = Inr None" using assms(4) by (simp add: next_page_url_def)
    moreover have "comments_loop srv c None (acc @ items) w1 = Some (Inr (acc @ items), w1)"
      by (subst comments_loop.simps) simp
    ultimately show ?thesis using assms False by (subst comments_loop.simps) simp
  next
    case True
    show ?thesis
    proof (cases np)
      case (JStr n)
      with True have n: "n \<noteq> []" by simp
      let ?u' = "replace_first (baseURL c) [] n"
      have nx: "next_page_url c data = Inr (Some ?u')"
        using assms(4) JStr n by (simp add: next_page_url_def)
      have eq: "comments_loop srv c (Some u) acc w = comments_loop srv c (Some ?u') (acc @ items) w1"
        using assms nx by (subst comments_loop.simps) simp
      show ?thesis
      proof (cases "n = baseURL c")
        case True
        then have "?u' = []" by (simp add: replace_first_Nil_iff)
        moreover have "comments_loop srv c (Some []) (acc @ items) w1 = Some (Inr (acc @ items), w1)"
          by (subst comments_loop.simps) simp
        ultimately show ?thesis using eq True JStr by simp
      next
        case False
        then have ne: "?u' \<noteq> []" using n by (simp add: replace_first_Nil_iff)
        have "comments_loop srv c (Some ?u') (acc @ items) w1 \<noteq> Some (Inr (acc @ items), w1)"
        proof
          assume "comments_loop srv c (Some ?u') (acc @ items) w1 = Some (Inr (acc @ items), w1)"
          from comments_loop_sent[OF this] ne have "prefix (sent w1 @ [get_req ?u']) (sent w1)" by simp
          then show False by (auto simp: prefix_def)
        qed
        then show ?thesis using eq False JStr True by simp
      qed
    next
      case JUndefined with True show ?thesis by simp
    next
      case JNull with True show ?thesis by simp
    next
      case JNaN with True show ?thesis by simp
    next
      case (JBool b)
      then have "next_page_url c data = Inl (TypeError ''nextPageUrl.replace is not a function'')"
        using assms(4) True by (simp add: next_page_url_def)
      then show ?thesis using assms JBool True by (subst comments_loop.simps) simp
    next
      case (JNum b)
      then have "next_page_url c data = Inl (TypeError ''nextPageUrl.replace is not a function'')"
        using assms(4) True by (simp add: next_page_url_def)
      then show ?thesis using assms JNum True by (subst comments_loop.simps) simp
    next
      case (JArr b)
      then have "next_page_url c data = Inl (TypeError ''nextPageUrl.replace is not a function'')"
        using assms(4) True by (simp add: next_page_url_def)
      then show ?thesis using assms JArr True by (subst comments_loop.simps) simp
    next
      case (JObj b)
      then have "next_page_url c data = Inl (TypeError ''nextPageUrl.replace is not a function'')"
        using assms(4) True by (simp add: next_page_url_def)
      then show ?thesis using assms JObj True by (subst comments_loop.simps) simp
    qed
  qed
qed

theorem continuation_step_witness:
  "''/tickets/7/comments.json?sort_order=asc'' \<noteq> [] \<and>
   axios (lookup_remote ticket7) (get_req ''/tickets/7/comments.json?sort_order=asc'') world0 =
     (Inr (JObj [(''comments'', JArr [JStr ''a'', JStr ''b'']),
                 (''next_page'', JStr ''https://acme.zendesk.com/api/v2/tickets/7/comments.json?page=2'')]),
      \<lparr>server = (), sent = [get_req ''/tickets/7/comments.json?sort_order=asc''], console = []\<rparr>) \<and>
   field (JObj [(''comments'', JArr [JStr ''a'', JStr ''b'']),
                (''next_page'', JStr ''https://acme.zendesk.com/api/v2/tickets/7/comments.json?page=2'')])
      ''comments'' = Inr (JArr [JStr ''a'', JStr ''b'']) \<and>
   field (JObj [(''comments'', JArr [JStr ''a'', JStr ''b'']),
                (''next_page'', JStr ''https://acme.zendesk.com/api/v2/tickets/7/comments.json?page=2'')])
      ''next_page'' = Inr (JStr ''https://acme.zendesk.com/api/v2/tickets/7/comments.json?page=2'') \<and>
   comments_loop (lookup_remote ticket7) acme (Some ''/tickets/7/comments.json?sort_order=asc'') [] world0 =
     comments_loop (lookup_remote ticket7) acme (Some ''/tickets/7/comments.json?page=2'')
       [JStr ''a'', JStr ''b'']
       \<lparr>server = (), sent = [get_req ''/tickets/7/comments.json?sort_order=asc''], console = []\<rparr> \<and>
   comments_loop (lookup_remote ticket7) acme (Some ''/tickets/7/comments.json?sort_order=asc'') [] world0 \<noteq>
     Some (Inr [JStr ''a'', JStr ''b''],
           \<lparr>server = (), sent = [get_req ''/tickets/7/comments.json?sort_order=asc''], console = []\<rparr>)"
  using continuation_step [of "''/tickets/7/comments.json?sort_order=asc''" "lookup_remote ticket7" world0
      "JObj [(''comments'', JArr [JStr ''a'', JStr ''b'']),
             (''next_page'', JStr ''https://acme.zendesk.com/api/v2/tickets/7/comments.json?page=2'')]"
      "\<lparr>server = (), sent = [get_req ''/tickets/7/comments.json?sort_order=asc''], console = []\<rparr>"
      "[JStr ''a'', JStr ''b'']"
      "JStr ''https://acme.zendesk.com/api/v2/tickets/7/comments.json?page=2''" acme "[]"]
  by (auto simp add: lookup_remote_def ticket7_def get_req_def acme_def ZendeskClient_def world0_def
      axios_def)

text \<open>
  C7 as stated fails: the only page of comments carries a continuation reference, the bare
  base URL, and the loop returns after that single request.
\<close>

theorem bare_base_counterexample:
  "field (JObj [(''comments'', JArr [JStr ''a'']),
                (''next_page'', JStr ''https://acme.zendesk.com/api/v2'')]) ''next_page'' =
     Inr (JStr ''https://acme.zendesk.com/api/v2'') \<and>
   truthy (JStr ''https://acme.zendesk.com/api/v2'') \<and>
   getTicketComments (lookup_remote bare7) acme (JNum 7) world0 =
     Some (Inr (JObj [(''comments'', JArr [JStr ''a'']), (''count'', JNum 1)]),
           \<lparr>server = (), sent = [get_req ''/tickets/7/comments.json?sort_order=asc''], console = []\<rparr>)"
  by (simp add: getTicketComments_def comments_loop.simps comments_path_def show_int_def digits.simps digit_def
      lookup_remote_def bare7_def get_req_def acme_def ZendeskClient_def world0_def axios_def
      next_page_url_def)

subsection \<open>The public URL of an article\<close>

lemma replace_all_prefix:
  "pat \<noteq> [] \<Longrightarrow> replace_all pat rep (pat @ rest) = rep @ replace_all pat rep rest"
  by (subst replace_all.simps) simp

lemma replace_all_absent:
  "\<not> str_includes s pat \<Longrightarrow> replace_all pat rep s = s"
proof (induction s)
  case Nil
  then show ?case by (simp add: replace_all.simps)
next
  case (Cons a s)
  then show ?case by (subst replace_all.simps) simp
qed

lemma hc_prefix_nonempty: "hc_prefix c \<noteq> []"
  by (simp add: hc_prefix_def)

lemma str_includes_iff: "str_includes s p \<longleftrightarrow> (\<exists>a b. s = a @ p @ b)"
proof (induction s)
  case Nil
  show ?case by auto
next
  case (Cons c cs)
  show ?case
  proof
    assume "str_includes (c # cs) p"
    then consider "prefix p (c # cs)" | "str_includes cs p" by auto
    then show "\<exists>a b. c # cs = a @ p @ b"
    proof cases
      case 1
      then obtain b where "c # cs = p @ b" by (auto simp: prefix_def)
      then show ?thesis by (intro exI[of _ "[]"] exI[of _ b]) simp
    next
      case 2
      with Cons.IH obtain a b where "cs = a @ p @ b" by blast
      then show ?thesis by (intro exI[of _ "c # a"] exI[of _ b]) simp
    qed
  next
    assume "\<exists>a b. c # cs = a @ p @ b"
    then obtain a b where ab: "c # cs = a @ p @ b" by blast
    show "str_includes (c # cs) p"
    proof (cases a)
      case Nil
      with ab have "prefix p (c # cs)" by (simp add: prefix_def)
      then show ?thesis by simp
    next
      case (Cons x a')
      with ab have "cs = a' @ p @ b" by simp
      with Cons.IH show ?thesis by auto
    qed
  qed
qed

lemma prefix_append_long: "length p \<le> length ys \<Longrightarrow> prefix p (ys @ zs) = prefix p ys"
  by (auto simp: prefix_append)

lemma replace_all_first:
  assumes "pat \<noteq> []"
  shows "\<not> str_includes (a @ butlast pat) pat \<Longrightarrow>
         replace_all pat rep (a @ pat @ b) = a @ rep @ replace_all pat rep b"
proof (induction a)
  case Nil
  show ?case using assms by (simp add: replace_all_prefix)
next
  case (Cons x a)
  have split: "(x # a) @ pat @ b = ((x # a) @ butlast pat) @ (last pat # b)"
    using assms by (simp flip: append_butlast_last_id)
  have len: "length pat \<le> length ((x # a) @ butlast pat)" by simp
  from Cons.prems have np: "\<not> prefix pat ((x # a) @ butlast pat)"
    and rest: "\<not> str_includes (a @ butlast pat) pat" by simp_all
  have "\<not> prefix pat ((x # a) @ pat @ b)"
    unfolding split prefix_append_long[OF len] using np .
  then have "replace_all pat rep ((x # a) @ pat @ b) = x # replace_all pat rep (a @ pat @ b)"
    using assms by (subst replace_all.simps) simp
  with Cons.IH[OF rest] show ?case by simp
qed

lemma replace_all_join:
  assumes "pat \<noteq> []"
  shows "segs \<noteq> [] \<Longrightarrow> list_all (\<lambda>a. \<not> str_includes (a @ butlast pat) pat) (butlast segs) \<Longrightarrow>
         \<not> str_includes (last segs) pat \<Longrightarrow>
         replace_all pat rep (join pat segs) = join rep segs"
proof (induction segs)
  case Nil
  then show ?case by simp
next
  case (Cons a segs)
  show ?case
  proof (cases segs)
    case Nil
    with Cons.prems show ?thesis by (simp add: replace_all_absent)
  next
    case (Cons y ys)
    with Cons.prems Cons.IH have "replace_all pat rep (join pat segs) = join rep segs" by simp
    moreover have "\<not> str_includes (a @ butlast pat) pat" using Cons.prems Cons by simp
    ultimately show ?thesis using Cons replace_all_first[OF assms, of a rep "join pat segs"] by simp
  qed
qed

text \<open>
  C8 (as amended). Without a help-center URL \<^verbatim>\<open>convertToCustomUrl\<close> returns its argument
  as it is, whatever the client. With one, and for a client whose subdomain has no
  character special in a regular expression and whose help-center URL has no \<^verbatim>\<open>$\<close>,
  every occurrence of \<^verbatim>\<open>https://<subdomain>.zendesk.com/hc/\<close> is replaced by the
  help-center URL followed by \<^verbatim>\<open>/hc/\<close>, and what stands between the occurrences is
  kept: a URL that does not contain the text is kept whole; a URL that begins with it and
  does not contain it again has that prefix replaced and its remainder kept; and a URL made
  of any number of segments joined by the text, where the text occurs nowhere else (not in
  the last segment, and not in another segment followed by the text less its last
  character), becomes the same segments joined by the replacement.
\<close>

theorem convertToCustomUrl_rewrite:
  "(helpCenterUrl c = None \<longrightarrow> convertToCustomUrl regexp c v = Inr v) \<and>
   (literal_config c \<and> helpCenterUrl c = Some h \<and> h \<noteq> [] \<longrightarrow>
      (\<not> str_includes s (hc_prefix c) \<longrightarrow> convertToCustomUrl regexp c (JStr s) = Inr (JStr s)) \<and>
      (\<not> str_includes rest (hc_prefix c) \<longrightarrow>
         convertToCustomUrl regexp c (JStr (hc_prefix c @ rest)) = Inr (JStr (h @ ''/hc/'' @ rest))) \<and>
      (segs \<noteq> [] \<and>
       list_all (\<lambda>a. \<not> str_includes (a @ butlast (hc_prefix c)) (hc_prefix c)) (butlast segs) \<and>
       \<not> str_includes (last segs) (hc_prefix c) \<longrightarrow>
         convertToCustomUrl regexp c (JStr (join (hc_prefix c) segs)) =
           Inr (JStr (join (h @ ''/hc/'') segs))))"
  by (simp add: convertToCustomUrl_def string_replace_def replace_all_prefix replace_all_absent
      replace_all_join hc_prefix_nonempty)

theorem convertToCustomUrl_rewrite_witness:
  "helpCenterUrl acme = None \<and>
   convertToCustomUrl no_regexp acme (JStr ''https://acme.zendesk.com/hc/ja/articles/1'') =
     Inr (JStr ''https://acme.zendesk.com/hc/ja/articles/1'') \<and>
   literal_config acme_help \<and> helpCenterUrl acme_help = Some ''https://help.acme.com'' \<and>
   ''https://help.acme.com'' \<noteq> [] \<and>
   \<not> str_includes ''https://example.com/hc/ja'' (hc_prefix acme_help) \<and>
   convertToCustomUrl no_regexp acme_help (JStr ''https://example.com/hc/ja'') =
     Inr (JStr ''https://example.com/hc/ja'') \<and>
   \<not> str_includes ''ja/articles/1'' (hc_prefix acme_help) \<and>
   convertToCustomUrl no_regexp acme_help (JStr (hc_prefix acme_help @ ''ja/articles/1'')) =
     Inr (JStr ''https://help.acme.com/hc/ja/articles/1'') \<and>
   [''see '', '' and '', ''.''] \<noteq> [] \<and>
   list_all (\<lambda>a. \<not> str_includes (a @ butlast (hc_prefix acme_help)) (hc_prefix acme_help))
     (butlast [''see '', '' and '', ''.'']) \<and>
   \<not> str_includes (last [''see '', '' and '', ''.'']) (hc_prefix acme_help) \<and>
   convertToCustomUrl no_regexp acme_help
     (JStr ''see https://acme.zendesk.com/hc/ and https://acme.zendesk.com/hc/.'') =
     Inr (JStr ''see https://help.acme.com/hc/ and https://help.acme.com/hc/.'')"
  using convertToCustomUrl_rewrite [where c = acme and regexp = no_regexp
      and v = "JStr ''https://acme.zendesk.com/hc/ja/articles/1''"]
    convertToCustomUrl_rewrite [where c = acme_help and regexp = no_regexp
      and h = "''https://help.acme.com''" and s = "''https://example.com/hc/ja''"
      and rest = "''ja/articles/1''" and segs = "[''see '', '' and '', ''.'']"]
  by (simp add: literal_config_def regex_special_def acme_def acme_help_def ZendeskClient_def
      hc_prefix_def)

text \<open>
  C8 as stated fails: a second occurrence of the prefix, in the remainder of the URL, is
  replaced too, so the remainder is not left untouched.
\<close>

theorem convertToCustomUrl_counterexample:
  "convertToCustomUrl no_regexp acme_help
     (JStr (''https://acme.zendesk.com/hc/'' @ ''ja/articles/1?return_to=https://acme.zendesk.com/hc/ja'')) =
     Inr (JStr ''https://help.acme.com/hc/ja/articles/1?return_to=https://help.acme.com/hc/ja'') \<and>
   ''https://help.acme.com/hc/ja/articles/1?return_to=https://help.acme.com/hc/ja'' \<noteq>
     ''https://help.acme.com/hc/'' @ ''ja/articles/1?return_to=https://acme.zendesk.com/hc/ja''"
  by (simp add: convertToCustomUrl_def string_replace_def literal_config_def regex_special_def
      acme_help_def ZendeskClient_def hc_prefix_def replace_all.simps)

subsection \<open>Enrichment of search hits\<close>

lemma field_present: "present a \<Longrightarrow> field a k = Inr (get a k)"
  by (cases a) (auto simp: present_def get_def)

lemma field_absent: "\<not> present a \<Longrightarrow> \<exists>e. field a k = Inl e"
  by (cases a) (auto simp: present_def)

lemma axios_sent: "axios srv rq w = (r, w1) \<Longrightarrow> sent w1 = sent w @ [rq] \<and> console w1 = console w"
  by (auto simp: axios_def split: prod.splits)

lemma fetch_detail_sent:
  "fetch_detail regexp srv c locale a w = (r, w1) \<Longrightarrow>
   sent w1 = sent w @ (if present a then [detail_req locale a] else [])"
proof (cases "present a")
  case False
  assume "fetch_detail regexp srv c locale a w = (r, w1)"
  with field_absent[OF False, of "''id''"] show ?thesis
    using False by (auto simp: fetch_detail_def)
next
  case True
  assume a: "fetch_detail regexp srv c locale a w = (r, w1)"
  obtain r0 w0 where ax: "axios srv (detail_req locale a) w = (r0, w0)"
    by (cases "axios srv (detail_req locale a) w")
  from a ax have "w1 = w0"
    by (auto simp: fetch_detail_def field_present[OF True] detail_req_def
        split: sum.splits if_splits)
  with axios_sent[OF ax] True show ?thesis by simp
qed

lemma enrich_sent:
  "enrich regexp srv c locale a w = (r, w1) \<Longrightarrow>
   sent w1 = sent w @ (if present a then [detail_req locale a] else [])"
proof -
  assume a: "enrich regexp srv c locale a w = (r, w1)"
  obtain r0 w0 where fd: "fetch_detail regexp srv c locale a w = (r0, w0)"
    by (cases "fetch_detail regexp srv c locale a w")
  from a fd have "sent w1 = sent w0"
    by (auto simp: enrich_def console_error_def split: sum.splits)
  with fetch_detail_sent[OF fd] show ?thesis by simp
qed

lemma enrich_rejects_iff:
  "(\<exists>e. fst (enrich regexp srv c locale a w) = Inl e) \<longleftrightarrow> \<not> present a"
proof (cases "present a")
  case True
  then show ?thesis
    by (auto simp: enrich_def field_present split: sum.splits prod.splits)
next
  case False
  from field_absent[OF False, of "''id''"] obtain e where e: "field a ''id'' = Inl e" by blast
  then show ?thesis using False by (auto simp: enrich_def fetch_detail_def)
qed

lemma enrich_built:
  "enrich regexp srv c locale a w = (Inr v, w1) \<Longrightarrow> v \<noteq> JNull \<Longrightarrow> \<exists>ad u. v = article_entry a ad u"
  by (auto simp: enrich_def fetch_detail_def split: sum.splits prod.splits if_splits)

lemma fan_out_length: "fan_out regexp srv c locale xs w = (rs, w2) \<Longrightarrow> length rs = length xs"
  by (induction xs arbitrary: w rs w2) (auto split: prod.splits)

lemma fan_out_sent:
  "fan_out regexp srv c locale xs w = (rs, w2) \<Longrightarrow>
   sent w2 = sent w @ map (detail_req locale) (filter present xs)"
proof (induction xs arbitrary: w rs w2)
  case Nil
  then show ?case by simp
next
  case (Cons a xs)
  obtain r w1 where e: "enrich regexp srv c locale a w = (r, w1)" by (cases "enrich regexp srv c locale a w")
  obtain rs' w2' where f: "fan_out regexp srv c locale xs w1 = (rs', w2')"
    by (cases "fan_out regexp srv c locale xs w1")
  from Cons.prems e f have "w2 = w2'" by simp
  with Cons.IH[OF f] enrich_sent[OF e] show ?case by simp
qed

lemmas fixture_defs = hit_def detail_def help_search_def help_center_def help_payload_def help_world_def
  help_none_def help_drafts_def
  lookup_remote_def acme_help_def ZendeskClient_def world0_def show_int_def digits.simps digit_def

lemmas search_defs = searchArticles_def search_and_enrich_def default_locale_def search_req_def
  axios_def get_req_def js_or_def Let_def enrich_def fetch_detail_def detail_path_def get_def
  convertToCustomUrl_def string_replace_def literal_config_def regex_special_def hc_prefix_def
  replace_all.simps article_entry_def console_error_def

lemma help_run:
  "searchArticles no_regexp (lookup_remote help_center) acme_help (JStr ''login'') JUndefined world0 =
     (help_payload, help_world)"
  by (simp add: fixture_defs search_defs)

lemma enrich_fetch_fails:
  "present a \<Longrightarrow> axios srv (detail_req loc a) w0 = (Inl e, w0') \<Longrightarrow>
   fst (enrich regexp srv c loc a w0) = Inr JNull"
  by (simp add: enrich_def fetch_detail_def field_present detail_req_def)

lemma enrich_draft:
  "present a \<Longrightarrow> axios srv (detail_req loc a) w0 = (Inr d, w0') \<Longrightarrow>
   field d ''article'' = Inr ad \<Longrightarrow> field ad ''draft'' = Inr (JBool True) \<Longrightarrow>
   fst (enrich regexp srv c loc a w0) = Inr JNull"
  by (simp add: enrich_def fetch_detail_def field_present detail_req_def)

lemma fan_out_resolves:
  "fan_out regexp srv c loc xs w = (outs, w2) \<Longrightarrow> list_all present xs \<Longrightarrow>
   \<exists>vs. outs = map Inr vs \<and> promise_all outs = Inr vs"
proof (induction xs arbitrary: w outs w2)
  case Nil
  then show ?case by simp
next
  case (Cons a xs)
  obtain r w1 where e: "enrich regexp srv c loc a w = (r, w1)" by (cases "enrich regexp srv c loc a w")
  obtain rs' w2' where f: "fan_out regexp srv c loc xs w1 = (rs', w2')"
    by (cases "fan_out regexp srv c loc xs w1")
  from Cons.prems(2) have pa: "present a" and pxs: "list_all present xs" by simp_all
  from enrich_rejects_iff[of regexp srv c loc a w] pa e obtain v where v: "r = Inr v"
    by (cases r) auto
  from Cons.IH[OF f pxs] obtain vs where "rs' = map Inr vs" "promise_all rs' = Inr vs" by blast
  with Cons.prems(1) e f v show ?case by (intro exI[of _ "v # vs"]) auto
qed

lemma callback_worlds_length: "length (callback_worlds regexp srv c locale xs w) = length xs"
  by (induction xs arbitrary: w) simp_all

lemma callbacks_fst: "map fst (callbacks regexp srv c locale xs w) = xs"
  by (simp add: callbacks_def callback_worlds_length)

lemma fan_out_outcomes:
  "fst (fan_out regexp srv c locale xs w) =
     map (outcome_of regexp srv c locale) (callbacks regexp srv c locale xs w)"
proof (induction xs arbitrary: w)
  case Nil
  show ?case by (simp add: callbacks_def)
next
  case (Cons a xs)
  from Cons.IH[of "snd (enrich regexp srv c locale a w)"] show ?case
    by (auto simp: callbacks_def outcome_of_def split: prod.splits)
qed

lemma promise_all_records:
  "promise_all rs = Inr vs \<Longrightarrow>
   filter (\<lambda>v. v \<noteq> JNull) vs = map record_of (filter survives rs)"
proof (induction rs arbitrary: vs)
  case Nil
  then show ?case by simp
next
  case (Cons r rs)
  then show ?case
    by (cases r; cases "promise_all rs") (auto simp: survives_def record_of_def)
qed

lemma fan_out_rejects:
  "fan_out regexp srv c locale xs w = (outs, w2) \<Longrightarrow> \<not> list_all present xs \<Longrightarrow>
   \<exists>e. promise_all outs = Inl e"
proof (induction xs arbitrary: w outs w2)
  case Nil
  then show ?case by simp
next
  case (Cons a xs)
  obtain r w1 where e: "enrich regexp srv c locale a w = (r, w1)"
    by (cases "enrich regexp srv c locale a w")
  obtain rs' w2' where f: "fan_out regexp srv c locale xs w1 = (rs', w2')"
    by (cases "fan_out regexp srv c locale xs w1")
  from Cons.prems(1) e f have outs: "outs = r # rs'" by auto
  show ?case
  proof (cases r)
    case (Inl x)
    with outs show ?thesis by simp
  next
    case (Inr v)
    with enrich_rejects_iff[of regexp srv c "locale" a w] e have "present a" by auto
    with Cons.prems(2) have "\<not> list_all present xs" by simp
    from Cons.IH[OF f this] obtain x where "promise_all rs' = Inl x" by blast
    with outs Inr show ?thesis by simp
  qed
qed

lemma survivors_built:
  "list_all (\<lambda>run. \<exists>ad u. record_of (outcome_of regexp srv c locale run) = article_entry (fst run) ad u)
     (filter (\<lambda>run. survives (outcome_of regexp srv c locale run)) runs)"
proof -
  {
    fix a w assume s: "survives (outcome_of regexp srv c locale (a, w))"
    obtain r w1 where e: "enrich regexp srv c locale a w = (r, w1)"
      by (cases "enrich regexp srv c locale a w")
    with s obtain v where v: "r = Inr v" "v \<noteq> JNull"
      by (cases r) (auto simp: survives_def outcome_of_def)
    from enrich_built[OF e[unfolded v(1)] v(2)] obtain ad u where "v = article_entry a ad u" by blast
    with e v have "\<exists>ad u. record_of (outcome_of regexp srv c locale (a, w)) = article_entry a ad u"
      by (auto simp: record_of_def outcome_of_def)
  }
  then show ?thesis by (auto simp: list_all_iff)
qed

text \<open>
  C2. In every enrichment batch (the search answered with a list of candidates), the
  callbacks run on the first ten candidates and on no other, and the detail requests are
  those of the candidates among these ten that are not \<^verbatim>\<open>null\<close>, in the order of the
  candidates and at most ten; nothing else is requested after the search. The
  \<^verbatim>\<open>results\<close> returned are the records that the callbacks yield for the first five
  candidates that yield one, in the order of these candidates, every record built from its
  own candidate (or no record at all when one of the ten candidates is \<^verbatim>\<open>null\<close>); so
  they are at most five, at most as many as the callbacks that yield a record, and at most
  as many as the candidates.
\<close>

theorem enrichment_bounds:
  assumes "axios srv (search_req query (default_locale locale)) w = (Inr data, w1)"
    and "field data ''results'' = Inr (JArr candidates)"
    and "searchArticles regexp srv c query locale w = (payload, w')"
  shows "map fst (callbacks regexp srv c (default_locale locale) (take 10 candidates) w1) =
        take 10 candidates \<and>
      fst (fan_out regexp srv c (default_locale locale) (take 10 candidates) w1) =
        map (outcome_of regexp srv c (default_locale locale))
          (callbacks regexp srv c (default_locale locale) (take 10 candidates) w1) \<and>
      subseq (map fst (take 5 (surviving regexp srv c (default_locale locale) (take 10 candidates) w1)))
        candidates \<and>
      list_all (\<lambda>run. \<exists>ad u. record_of (outcome_of regexp srv c (default_locale locale) run) =
                               article_entry (fst run) ad u)
        (surviving regexp srv c (default_locale locale) (take 10 candidates) w1) \<and>
      (\<exists>rs. field payload ''results'' = Inr (JArr rs) \<and>
         rs = (if list_all present (take 10 candidates)
               then map (\<lambda>run. record_of (outcome_of regexp srv c (default_locale locale) run))
                      (take 5 (surviving regexp srv c (default_locale locale) (take 10 candidates) w1))
               else []) \<and>
         length rs \<le> min 5 (length (filter survives
                        (fst (fan_out regexp srv c (default_locale locale) (take 10 candidates) w1)))) \<and>
         length rs \<le> min 5 (length candidates)) \<and>
      sent w' = sent w @ search_req query (default_locale locale) #
                  map (detail_req (default_locale locale)) (filter present (take 10 candidates)) \<and>
      length (filter present (take 10 candidates)) \<le> 10"
proof -
  let ?loc = "default_locale locale"
  let ?out = "outcome_of regexp srv c ?loc"
  let ?det = "map (detail_req ?loc) (filter present (take 10 candidates))"
  define runs where "runs = callbacks regexp srv c ?loc (take 10 candidates) w1"
  define kept where "kept = surviving regexp srv c ?loc (take 10 candidates) w1"
  have k: "kept = filter (\<lambda>run. survives (?out run)) runs" by (simp add: kept_def runs_def surviving_def)
  let ?res = "if list_all present (take 10 candidates)
              then map (\<lambda>run. record_of (?out run)) (take 5 kept) else []"
  have s1: "sent w1 = sent w @ [search_req query ?loc]" using axios_sent[OF assms(1)] by simp
  have l10: "length (filter present (take 10 candidates)) \<le> 10"
    by (rule order_trans[OF length_filter_le]) simp
  obtain outs w2 where fo: "fan_out regexp srv c ?loc (take 10 candidates) w1 = (outs, w2)"
    by (cases "fan_out regexp srv c ?loc (take 10 candidates) w1")
  have s2: "sent w2 = sent w @ search_req query ?loc # ?det"
    using fan_out_sent[OF fo] s1 by simp
  have runs: "map fst runs = take 10 candidates" by (simp add: runs_def callbacks_fst)
  have outs: "outs = map ?out runs"
    using fan_out_outcomes[of regexp srv c ?loc "take 10 candidates" w1] fo by (simp add: runs_def)
  have kept: "filter survives outs = map ?out kept" by (simp add: outs k filter_map o_def)
  have "subseq (map fst (take 5 kept)) (map fst runs)"
    unfolding k
    by (intro subseq_map) (metis subseq_filter_left subseq_order.order_trans sublist_imp_subseq sublist_take)
  then have sub: "subseq (map fst (take 5 kept)) candidates"
    unfolding runs by (metis subseq_order.order_trans sublist_imp_subseq sublist_take)
  have built: "list_all (\<lambda>run. \<exists>ad u. record_of (?out run) = article_entry (fst run) ad u) kept"
    unfolding k by (rule survivors_built)
  have lk: "length kept \<le> length candidates"
  proof -
    have "length kept \<le> length runs" unfolding k by (rule length_filter_le)
    also have "\<dots> = length (map fst runs)" by simp
    also have "\<dots> \<le> length candidates" unfolding runs by simp
    finally show ?thesis .
  qed
  have res: "field payload ''results'' = Inr (JArr ?res) \<and> sent w' = sent w2"
  proof (cases "candidates = []")
    case True
    with assms(1-3) have "payload = JObj (empty_result @ [(''message'', JStr msg_no_results)])" "w' = w1"
      by (auto simp: searchArticles_def search_and_enrich_def js_or_def Let_def)
    moreover have "kept = []" using True by (simp add: runs_def k callbacks_def)
    moreover have "w2 = w1" using fo True by simp
    ultimately show ?thesis by (simp add: empty_result_def)
  next
    case ne: False
    show ?thesis
    proof (cases "promise_all outs")
      case (Inl e)
      with assms(1-3) ne fo have "\<exists>m. payload = JObj (empty_result @ [(''error'', m)])" "sent w' = sent w2"
        by (auto simp: searchArticles_def search_and_enrich_def js_or_def console_error_def Let_def)
      moreover have "\<not> list_all present (take 10 candidates)"
        using fan_out_resolves[OF fo] Inl by auto
      ultimately show ?thesis by (auto simp: empty_result_def)
    next
      case (Inr vs)
      let ?pub = "filter (\<lambda>a. a \<noteq> JNull) vs"
      have pr: "list_all present (take 10 candidates)"
        using fan_out_rejects[OF fo] Inr by auto
      have pub: "?pub = map (\<lambda>run. record_of (?out run)) kept"
        using promise_all_records[OF Inr] kept by (simp add: o_def)
      show ?thesis
      proof (cases "?pub = []")
        case True
        with assms(1-3) ne fo Inr have "payload = JObj (empty_result @ [(''message'', JStr msg_no_public)])"
          "w' = w2"
          by (auto simp: searchArticles_def search_and_enrich_def js_or_def Let_def)
        moreover have "kept = []" using True pub by simp
        ultimately show ?thesis by (simp add: empty_result_def)
      next
        case False
        with assms(1-3) ne fo Inr have "field payload ''results'' = Inr (JArr (take 5 ?pub))" "w' = w2"
          by (auto simp: searchArticles_def search_and_enrich_def js_or_def Let_def)
        then show ?thesis using pr by (simp add: pub take_map)
      qed
    qed
  qed
  have len: "length ?res \<le> min 5 (length (filter survives outs)) \<and> length ?res \<le> min 5 (length candidates)"
    using lk by (simp add: kept min_le_iff_disj)
  show ?thesis
    using runs outs fo sub built res len s2 l10 unfolding runs_def kept_def by simp
qed

theorem enrichment_bounds_witness:
  "axios (lookup_remote help_center) (search_req (JStr ''login'') (default_locale JUndefined)) world0 =
     (Inr help_search, world0\<lparr>sent := [search_req (JStr ''login'') (JStr ''ja'')]\<rparr>) \<and>
   field help_search ''results'' = Inr (JArr [hit 1, hit 2, hit 3, hit 4]) \<and>
   searchArticles no_regexp (lookup_remote help_center) acme_help (JStr ''login'') JUndefined world0 =
     (help_payload, help_world) \<and>
   list_all present (take 10 [hit 1, hit 2, hit 3, hit 4]) \<and>
   map fst (take 5 (surviving no_regexp (lookup_remote help_center) acme_help (default_locale JUndefined)
                      (take 10 [hit 1, hit 2, hit 3, hit 4])
                      (world0\<lparr>sent := [search_req (JStr ''login'') (JStr ''ja'')]\<rparr>))) =
     [hit 1, hit 4] \<and>
   subseq [hit 1, hit 4] [hit 1, hit 2, hit 3, hit 4] \<and>
   field help_payload ''results'' =
     Inr (JArr (map (\<lambda>run. record_of (outcome_of no_regexp (lookup_remote help_center) acme_help
                                         (default_locale JUndefined) run))
                  (take 5 (surviving no_regexp (lookup_remote help_center) acme_help
                             (default_locale JUndefined) (take 10 [hit 1, hit 2, hit 3, hit 4])
                             (world0\<lparr>sent := [search_req (JStr ''login'') (JStr ''ja'')]\<rparr>))))) \<and>
   sent help_world =
     sent world0 @ search_req (JStr ''login'') (default_locale JUndefined) #
       map (detail_req (default_locale JUndefined)) (filter present (take 10 [hit 1, hit 2, hit 3, hit 4]))"
proof -
  let ?srv = "lookup_remote help_center"
  let ?w1 = "world0\<lparr>sent := [search_req (JStr ''login'') (JStr ''ja'')]\<rparr>"
  have h1: "axios ?srv (search_req (JStr ''login'') (default_locale JUndefined)) world0 =
     (Inr help_search, ?w1)"
    by (simp add: fixture_defs search_defs)
  have h2: "field help_search ''results'' = Inr (JArr [hit 1, hit 2, hit 3, hit 4])"
    by (simp add: help_search_def)
  have h3: "list_all present (take 10 [hit 1, hit 2, hit 3, hit 4])"
    by (simp add: present_def hit_def)
  have h4: "map fst (take 5 (surviving no_regexp ?srv acme_help (default_locale JUndefined)
                      (take 10 [hit 1, hit 2, hit 3, hit 4]) ?w1)) = [hit 1, hit 4]"
    by (simp add: surviving_def callbacks_def outcome_of_def survives_def fixture_defs search_defs)
  from enrichment_bounds [OF h1 h2 help_run] h1 h2 h3 h4 help_run show ?thesis by simp
qed

text \<open>
  A candidate whose detail request fails, and a candidate whose detail says
  \<^verbatim>\<open>draft === true\<close>, are both mapped to \<^verbatim>\<open>null\<close> by the callback. In a batch whose first
  ten candidates are none of them \<^verbatim>\<open>null\<close>, no callback is rejected, whatever the remote
  answers: the payload is never the error payload, its \<^verbatim>\<open>results\<close> are the first five
  outcomes that are not \<^verbatim>\<open>null\<close>, and it is the success payload as soon as one candidate
  yields a record.
\<close>

lemma present_batch_tolerates_failures:
  "(present a \<and> axios srv (detail_req loc a) w0 = (Inl e, w0') \<longrightarrow>
      fst (enrich regexp srv c loc a w0) = Inr JNull) \<and>
   (present a \<and> axios srv (detail_req loc a) w0 = (Inr d, w0') \<and>
    field d ''article'' = Inr ad \<and> field ad ''draft'' = Inr (JBool True) \<longrightarrow>
      fst (enrich regexp srv c loc a w0) = Inr JNull) \<and>
   (axios srv (search_req query (default_locale lang)) w = (Inr data, w1) \<and>
    field data ''results'' = Inr (JArr candidates) \<and>
    list_all present (take 10 candidates) \<and>
    fan_out regexp srv c (default_locale lang) (take 10 candidates) w1 = (outcomes, w2) \<longrightarrow>
      (\<exists>vs. outcomes = map Inr vs \<and>
         fst (searchArticles regexp srv c query lang w) =
           (if candidates = [] then JObj (empty_result @ [(''message'', JStr msg_no_results)])
            else if filter (\<lambda>v. v \<noteq> JNull) vs = []
            then JObj (empty_result @ [(''message'', JStr msg_no_public)])
            else JObj [(''results'', JArr (take 5 (filter (\<lambda>v. v \<noteq> JNull) vs))),
                       (''count'', JNum (int (length (filter (\<lambda>v. v \<noteq> JNull) vs)))),
                       (''page'', js_or (get data ''page'') (JNum 1)),
                       (''page_count'', js_or (get data ''page_count'') (JNum 1))])))"
proof (intro conjI impI)
  assume "present a \<and> axios srv (detail_req loc a) w0 = (Inl e, w0')"
  then show "fst (enrich regexp srv c loc a w0) = Inr JNull" by (simp add: enrich_fetch_fails)
next
  assume "present a \<and> axios srv (detail_req loc a) w0 = (Inr d, w0') \<and>
    field d ''article'' = Inr ad \<and> field ad ''draft'' = Inr (JBool True)"
  then show "fst (enrich regexp srv c loc a w0) = Inr JNull" by (simp add: enrich_draft)
next
  assume a: "axios srv (search_req query (default_locale lang)) w = (Inr data, w1) \<and>
    field data ''results'' = Inr (JArr candidates) \<and>
    list_all present (take 10 candidates) \<and>
    fan_out regexp srv c (default_locale lang) (take 10 candidates) w1 = (outcomes, w2)"
  then have fo: "fan_out regexp srv c (default_locale lang) (take 10 candidates) w1 = (outcomes, w2)"
    and pr: "list_all present (take 10 candidates)" by simp_all
  from fan_out_resolves[OF fo pr] obtain vs where vs: "outcomes = map Inr vs"
    "promise_all outcomes = Inr vs" by blast
  show "\<exists>vs. outcomes = map Inr vs \<and>
         fst (searchArticles regexp srv c query lang w) =
           (if candidates = [] then JObj (empty_result @ [(''message'', JStr msg_no_results)])
            else if filter (\<lambda>v. v \<noteq> JNull) vs = []
            then JObj (empty_result @ [(''message'', JStr msg_no_public)])
            else JObj [(''results'', JArr (take 5 (filter (\<lambda>v. v \<noteq> JNull) vs))),
                       (''count'', JNum (int (length (filter (\<lambda>v. v \<noteq> JNull) vs)))),
                       (''page'', js_or (get data ''page'') (JNum 1)),
                       (''page_count'', js_or (get data ''page_count'') (JNum 1))])"
    apply (rule exI[of _ vs])
    using a vs by (auto simp: searchArticles_def search_and_enrich_def js_or_def Let_def)
qed

text \<open>
  C3 fails on the code for a batch with a hit that is \<^verbatim>\<open>null\<close>. The search answers with
  article 1, which is fetched and yields its record, and with \<^verbatim>\<open>null\<close>: the callback of
  the latter throws on \<^verbatim>\<open>article.id\<close>, its handler reads \<^verbatim>\<open>article.id\<close> again for the
  console line and throws in its turn, the callback is rejected, and the batch ends in the
  error payload, without the record of article 1.
\<close>

theorem null_hit_aborts_batch:
  "fst (fan_out no_regexp (lookup_remote help_null) acme_help (JStr ''ja'') (take 10 [hit 1, JNull])
          (world0\<lparr>sent := [search_req (JStr ''login'') (JStr ''ja'')]\<rparr>)) =
     [Inr (article_entry (hit 1) (detail 1 False) (JStr ''https://help.acme.com/hc/ja/articles/1'')),
      Inl null_read] \<and>
   fst (searchArticles no_regexp (lookup_remote help_null) acme_help (JStr ''login'') JUndefined world0) =
     JObj (empty_result @
           [(''error'', JStr (msg_search_error @ message null_read @ msg_status @ ''undefined)''))])"
  by (simp add: help_null_def null_read_def fixture_defs search_defs error_message_def error_status_def)

lemma msgs_differ: "msg_no_results \<noteq> msg_no_public"
  by (simp add: msg_no_results_def msg_no_public_def)

text \<open>
  When the search is answered and no callback is rejected, an empty final collection gives
  the empty result (\<^verbatim>\<open>results: []\<close>, \<^verbatim>\<open>count: 0\<close>) with a message and without an
  \<^verbatim>\<open>error\<close> member: one message when the search found no candidate, another when there
  were candidates and every one of them was filtered out or failed.
\<close>

lemma settled_batch_empty_message:
  assumes "axios srv (search_req query (default_locale locale)) w = (Inr data, w1)"
    and "field data ''results'' = Inr r"
  shows "(field (js_or r (JArr [])) ''length'' = Inr (JNum 0) \<longrightarrow>
            fst (searchArticles regexp srv c query locale w) =
              JObj (empty_result @ [(''message'', JStr msg_no_results)])) \<and>
         (r = JArr candidates \<and> candidates \<noteq> [] \<and>
          fan_out regexp srv c (default_locale locale) (take 10 candidates) w1 = (outcomes, w2) \<and>
          promise_all outcomes = Inr vs \<and> filter (\<lambda>v. v \<noteq> JNull) vs = [] \<longrightarrow>
            fst (searchArticles regexp srv c query locale w) =
              JObj (empty_result @ [(''message'', JStr msg_no_public)])) \<and>
         msg_no_results \<noteq> msg_no_public \<and>
         get (JObj (empty_result @ [(''message'', JStr m)])) ''results'' = JArr [] \<and>
         get (JObj (empty_result @ [(''message'', JStr m)])) ''count'' = JNum 0 \<and>
         get (JObj (empty_result @ [(''message'', JStr m)])) ''message'' = JStr m \<and>
         get (JObj (empty_result @ [(''message'', JStr m)])) ''error'' = JUndefined"
proof (intro conjI impI)
  assume "field (js_or r (JArr [])) ''length'' = Inr (JNum 0)"
  with assms show "fst (searchArticles regexp srv c query locale w) =
              JObj (empty_result @ [(''message'', JStr msg_no_results)])"
    by (simp add: searchArticles_def search_and_enrich_def Let_def)
next
  assume "r = JArr candidates \<and> candidates \<noteq> [] \<and>
          fan_out regexp srv c (default_locale locale) (take 10 candidates) w1 = (outcomes, w2) \<and>
          promise_all outcomes = Inr vs \<and> filter (\<lambda>v. v \<noteq> JNull) vs = []"
  with assms show "fst (searchArticles regexp srv c query locale w) =
              JObj (empty_result @ [(''message'', JStr msg_no_public)])"
    by (auto simp: searchArticles_def search_and_enrich_def js_or_def Let_def)
qed (simp_all add: msgs_differ get_def empty_result_def)

text \<open>
  C9 fails on the code for a batch with a hit that is \<^verbatim>\<open>null\<close>. The search answers with
  article 3, whose detail cannot be fetched, and with \<^verbatim>\<open>null\<close>: there were candidates
  and none of them yields a record, yet the payload carries an \<^verbatim>\<open>error\<close> member and no
  \<^verbatim>\<open>message\<close>. The cause is the one of the failure of C3, the handler of the callback
  reading \<^verbatim>\<open>article.id\<close> of \<^verbatim>\<open>null\<close>.
\<close>

theorem null_hit_reported_as_error:
  "fst (fan_out no_regexp (lookup_remote help_lost) acme (JStr ''ja'') (take 10 [hit 3, JNull])
          (world0\<lparr>sent := [search_req (JStr ''login'') (JStr ''ja'')]\<rparr>)) =
     [Inr JNull, Inl null_read] \<and>
   fst (searchArticles no_regexp (lookup_remote help_lost) acme (JStr ''login'') JUndefined world0) =
     JObj (empty_result @
           [(''error'', JStr (msg_search_error @ message null_read @ msg_status @ ''undefined)''))]) \<and>
   get (fst (searchArticles no_regexp (lookup_remote help_lost) acme (JStr ''login'') JUndefined world0))
     ''message'' = JUndefined"
  by (simp add: help_lost_def null_read_def fixture_defs search_defs error_message_def error_status_def
      acme_def empty_result_def)

subsection \<open>Ticket search\<close>

lemma is_timeout_iff:
  "is_timeout e \<longleftrightarrow> code e = Some ''ECONNABORTED'' \<or> (\<exists>a b. message e = a @ ''timeout'' @ b)"
  by (simp add: is_timeout_def str_includes_iff)

lemma searchTickets_catch:
  "search_tickets_try parse srv query (if maxResults = JUndefined then JNum 100 else maxResults) w =
     (Inl e, w1) \<Longrightarrow>
   searchTickets parse srv query maxResults w =
     (if code e = Some ''ECONNABORTED'' \<or> (\<exists>a b. message e = a @ ''timeout'' @ b)
      then (Inr timeout_result, w1) else (Inl e, w1))"
  by (simp add: searchTickets_def Let_def is_timeout_iff)

lemma search_tickets_try_fails:
  "axios srv (tickets_req parse query maxResults) w = (Inl e, w1) \<Longrightarrow>
   search_tickets_try parse srv query maxResults w = (Inl e, w1)"
  by (simp add: search_tickets_try_def)

lemma search_tickets_tool:
  "truthy args \<Longrightarrow>
   callTool regexp parse stringify srv (Some c) ''search_tickets'' args w =
     (case searchTickets parse srv (get args ''query'') (js_or (get args ''max_results'') (JNum 100)) w of
        (Inl e, w1) \<Rightarrow> Some (Inr \<lparr>content_text = JStr (''Error: '' @ message e), isError = True\<rparr>, w1)
      | (Inr v, w1) \<Rightarrow> Some (Inr \<lparr>content_text = stringify v, isError = False\<rparr>, w1))"
  by (simp add: callTool_def call_tool_try_def tool_case_def split: prod.splits sum.splits)

text \<open>
  C10. When the remote search call of \<^verbatim>\<open>searchTickets\<close> fails with an error whose code
  is \<^verbatim>\<open>ECONNABORTED\<close> or whose message contains \<^verbatim>\<open>timeout\<close>, the method returns the
  payload with empty \<^verbatim>\<open>results\<close>, zero counts and an \<^verbatim>\<open>error\<close> text, which the
  dispatcher wraps as a success. Any error with another code and without \<^verbatim>\<open>timeout\<close> in
  its message, of the call or of the rest of the \<^verbatim>\<open>try\<close>, is thrown again and reaches
  the dispatcher, which wraps it as a failure.
\<close>

theorem searchTickets_timeout:
  "(axios srv (tickets_req parse query (if maxResults = JUndefined then JNum 100 else maxResults)) w =
      (Inl e, w1) \<and>
    (code e = Some ''ECONNABORTED'' \<or> (\<exists>a b. message e = a @ ''timeout'' @ b)) \<longrightarrow>
      searchTickets parse srv query maxResults w = (Inr timeout_result, w1)) \<and>
   (truthy args \<and>
    axios srv (tickets_req parse (get args ''query'') (js_or (get args ''max_results'') (JNum 100))) w =
      (Inl e, w1) \<and>
    (code e = Some ''ECONNABORTED'' \<or> (\<exists>a b. message e = a @ ''timeout'' @ b)) \<longrightarrow>
      callTool regexp parse stringify srv (Some c) ''search_tickets'' args w =
        Some (Inr \<lparr>content_text = stringify timeout_result, isError = False\<rparr>, w1)) \<and>
   (search_tickets_try parse srv query (if maxResults = JUndefined then JNum 100 else maxResults) w =
      (Inl e, w1) \<and>
    code e \<noteq> Some ''ECONNABORTED'' \<and> (\<forall>a b. message e \<noteq> a @ ''timeout'' @ b) \<longrightarrow>
      searchTickets parse srv query maxResults w = (Inl e, w1)) \<and>
   (axios srv (tickets_req parse query (if maxResults = JUndefined then JNum 100 else maxResults)) w =
      (Inl e, w1) \<and>
    code e \<noteq> Some ''ECONNABORTED'' \<and> (\<forall>a b. message e \<noteq> a @ ''timeout'' @ b) \<longrightarrow>
      searchTickets parse srv query maxResults w = (Inl e, w1)) \<and>
   (truthy args \<and>
    search_tickets_try parse srv (get args ''query'') (js_or (get args ''max_results'') (JNum 100)) w =
      (Inl e, w1) \<and>
    code e \<noteq> Some ''ECONNABORTED'' \<and> (\<forall>a b. message e \<noteq> a @ ''timeout'' @ b) \<longrightarrow>
      callTool regexp parse stringify srv (Some c) ''search_tickets'' args w =
        Some (Inr \<lparr>content_text = JStr (''Error: '' @ message e), isError = True\<rparr>, w1)) \<and>
   get timeout_result ''results'' = JArr [] \<and> get timeout_result ''count'' = JNum 0 \<and>
   get timeout_result ''total_count'' = JNum 0 \<and> get timeout_result ''error'' = JStr msg_timeout"
proof -
  let ?mr = "if maxResults = JUndefined then JNum 100 else maxResults"
  let ?q = "get args ''query''" and ?m = "js_or (get args ''max_results'') (JNum 100)"
  have m: "(if ?m = JUndefined then JNum 100 else ?m) = ?m" by (auto simp: js_or_def)
  have c1: "searchTickets parse srv query maxResults w = (Inr timeout_result, w1)"
    if "axios srv (tickets_req parse query ?mr) w = (Inl e, w1)"
      and "code e = Some ''ECONNABORTED'' \<or> (\<exists>a b. message e = a @ ''timeout'' @ b)"
    using searchTickets_catch[OF search_tickets_try_fails[OF that(1)]] that(2) by simp
  have c2: "callTool regexp parse stringify srv (Some c) ''search_tickets'' args w =
        Some (Inr \<lparr>content_text = stringify timeout_result, isError = False\<rparr>, w1)"
    if "truthy args" and "axios srv (tickets_req parse ?q ?m) w = (Inl e, w1)"
      and "code e = Some ''ECONNABORTED'' \<or> (\<exists>a b. message e = a @ ''timeout'' @ b)"
  proof -
    have "search_tickets_try parse srv ?q (if ?m = JUndefined then JNum 100 else ?m) w = (Inl e, w1)"
      using search_tickets_try_fails[OF that(2)] by (simp only: m)
    from searchTickets_catch[OF this] that(3)
    have "searchTickets parse srv ?q ?m w = (Inr timeout_result, w1)" by simp
    then show ?thesis by (simp add: search_tickets_tool[OF that(1)])
  qed
  have c3: "searchTickets parse srv query maxResults w = (Inl e, w1)"
    if "search_tickets_try parse srv query ?mr w = (Inl e, w1)"
      and "code e \<noteq> Some ''ECONNABORTED''" and "\<forall>a b. message e \<noteq> a @ ''timeout'' @ b"
    using searchTickets_catch[OF that(1)] that(2,3) by simp
  have c4: "searchTickets parse srv query maxResults w = (Inl e, w1)"
    if "axios srv (tickets_req parse query ?mr) w = (Inl e, w1)"
      and "code e \<noteq> Some ''ECONNABORTED''" and "\<forall>a b. message e \<noteq> a @ ''timeout'' @ b"
    using c3[OF search_tickets_try_fails[OF that(1)] that(2,3)] .
  have c5: "callTool regexp parse stringify srv (Some c) ''search_tickets'' args w =
        Some (Inr \<lparr>content_text = JStr (''Error: '' @ message e), isError = True\<rparr>, w1)"
    if "truthy args" and "search_tickets_try parse srv ?q ?m w = (Inl e, w1)"
      and "code e \<noteq> Some ''ECONNABORTED''" and "\<forall>a b. message e \<noteq> a @ ''timeout'' @ b"
  proof -
    have "search_tickets_try parse srv ?q (if ?m = JUndefined then JNum 100 else ?m) w = (Inl e, w1)"
      using that(2) by (simp only: m)
    from searchTickets_catch[OF this] that(3,4)
    have "searchTickets parse srv ?q ?m w = (Inl e, w1)" by simp
    then show ?thesis by (simp add: search_tickets_tool[OF that(1)])
  qed
  have c6: "get timeout_result ''results'' = JArr [] \<and> get timeout_result ''count'' = JNum 0 \<and>
   get timeout_result ''total_count'' = JNum 0 \<and> get timeout_result ''error'' = JStr msg_timeout"
    by (simp add: timeout_result_def get_def)
  show ?thesis using c1 c2 c3 c4 c5 c6 by blast
qed

theorem searchTickets_timeout_witness:
  "axios (failing aborted)
     (tickets_req no_parse (JStr ''printer'') (if JUndefined = JUndefined then JNum 100 else JUndefined))
     world0 =
     (Inl aborted, world0\<lparr>sent := [tickets_req no_parse (JStr ''printer'') (JNum 100)]\<rparr>) \<and>
   code aborted = Some ''ECONNABORTED'' \<and> \<not> str_includes (message aborted) ''timeout'' \<and>
   searchTickets no_parse (failing aborted) (JStr ''printer'') JUndefined world0 =
     (Inr timeout_result, world0\<lparr>sent := [tickets_req no_parse (JStr ''printer'') (JNum 100)]\<rparr>) \<and>
   truthy (JObj [(''query'', JStr ''printer'')]) \<and>
   callTool no_regexp no_parse as_text (failing aborted) (Some acme) ''search_tickets''
       (JObj [(''query'', JStr ''printer'')]) world0 =
     Some (Inr \<lparr>content_text = as_text timeout_result, isError = False\<rparr>,
           world0\<lparr>sent := [tickets_req no_parse (JStr ''printer'') (JNum 100)]\<rparr>) \<and>
   axios (failing timed_out)
     (tickets_req no_parse (JStr ''printer'') (if JUndefined = JUndefined then JNum 100 else JUndefined))
     world0 =
     (Inl timed_out, world0\<lparr>sent := [tickets_req no_parse (JStr ''printer'') (JNum 100)]\<rparr>) \<and>
   code timed_out \<noteq> Some ''ECONNABORTED'' \<and>
   message timed_out = [] @ ''timeout'' @ '' of 30000ms exceeded'' \<and>
   searchTickets no_parse (failing timed_out) (JStr ''printer'') JUndefined world0 =
     (Inr timeout_result, world0\<lparr>sent := [tickets_req no_parse (JStr ''printer'') (JNum 100)]\<rparr>) \<and>
   callTool no_regexp no_parse as_text (failing timed_out) (Some acme) ''search_tickets''
       (JObj [(''query'', JStr ''printer'')]) world0 =
     Some (Inr \<lparr>content_text = as_text timeout_result, isError = False\<rparr>,
           world0\<lparr>sent := [tickets_req no_parse (JStr ''printer'') (JNum 100)]\<rparr>) \<and>
   axios (failing not_found)
     (tickets_req no_parse (JStr ''printer'') (if JUndefined = JUndefined then JNum 100 else JUndefined))
     world0 =
     (Inl not_found, world0\<lparr>sent := [tickets_req no_parse (JStr ''printer'') (JNum 100)]\<rparr>) \<and>
   code not_found \<noteq> Some ''ECONNABORTED'' \<and> \<not> str_includes (message not_found) ''timeout'' \<and>
   searchTickets no_parse (failing not_found) (JStr ''printer'') JUndefined world0 =
     (Inl not_found, world0\<lparr>sent := [tickets_req no_parse (JStr ''printer'') (JNum 100)]\<rparr>) \<and>
   callTool no_regexp no_parse as_text (failing not_found) (Some acme) ''search_tickets''
       (JObj [(''query'', JStr ''printer'')]) world0 =
     Some (Inr \<lparr>content_text = JStr (''Error: '' @ message not_found), isError = True\<rparr>,
           world0\<lparr>sent := [tickets_req no_parse (JStr ''printer'') (JNum 100)]\<rparr>) \<and>
   search_tickets_try no_parse (lookup_remote [(''/search.json'', JNull)]) (JStr ''printer'')
       (if JUndefined = JUndefined then JNum 100 else JUndefined) world0 =
     (Inl (TypeError (''Cannot read properties of null (reading '' @ [CHR 0x27] @ ''results'' @
                      [CHR 0x27] @ '')'')),
      world0\<lparr>sent := [tickets_req no_parse (JStr ''printer'') (JNum 100)]\<rparr>) \<and>
   searchTickets no_parse (lookup_remote [(''/search.json'', JNull)]) (JStr ''printer'') JUndefined world0 =
     (Inl (TypeError (''Cannot read properties of null (reading '' @ [CHR 0x27] @ ''results'' @
                      [CHR 0x27] @ '')'')),
      world0\<lparr>sent := [tickets_req no_parse (JStr ''printer'') (JNum 100)]\<rparr>)"
proof -
  let ?rq = "tickets_req no_parse (JStr ''printer'') (JNum 100)"
  let ?first = "tickets_req no_parse (JStr ''printer'') (if JUndefined = JUndefined then JNum 100 else JUndefined)"
  let ?w1 = "world0\<lparr>sent := [?rq]\<rparr>"
  let ?args = "JObj [(''query'', JStr ''printer'')]"
  let ?nul = "lookup_remote [(''/search.json'', JNull)]"
  let ?te = "TypeError (''Cannot read properties of null (reading '' @ [CHR 0x27] @ ''results'' @
                      [CHR 0x27] @ '')'')"
  have rq: "tickets_req no_parse (get ?args ''query'') (js_or (get ?args ''max_results'') (JNum 100)) = ?rq"
    by (simp add: get_def js_or_def)
  have ax: "axios (failing e) ?first world0 = (Inl e, ?w1)" for e
    by (simp add: axios_def failing_def world0_def)
  have ax': "axios (failing e)
      (tickets_req no_parse (get ?args ''query'') (js_or (get ?args ''max_results'') (JNum 100))) world0 =
      (Inl e, ?w1)" for e
    using ax[of e] by (simp add: rq)
  have tr: "truthy ?args" by simp
  have a1: "code aborted = Some ''ECONNABORTED''" "\<not> str_includes (message aborted) ''timeout''"
    by (simp_all add: aborted_def)
  have b1: "code timed_out \<noteq> Some ''ECONNABORTED''"
    "message timed_out = [] @ ''timeout'' @ '' of 30000ms exceeded''"
    by (simp_all add: timed_out_def)
  have n1: "code not_found \<noteq> Some ''ECONNABORTED''" "\<not> str_includes (message not_found) ''timeout''"
    by (simp_all add: not_found_def)
  have n2: "\<forall>a b. message not_found \<noteq> a @ ''timeout'' @ b"
    using n1(2) by (simp add: str_includes_iff)
  have b2: "\<exists>a b. message timed_out = a @ ''timeout'' @ b" using b1(2) by blast
  have d1: "search_tickets_try no_parse ?nul (JStr ''printer'')
       (if JUndefined = JUndefined then JNum 100 else JUndefined) world0 = (Inl ?te, ?w1)"
    by (simp add: search_tickets_try_def axios_def lookup_remote_def tickets_req_def world0_def)
  have d2: "code ?te \<noteq> Some ''ECONNABORTED''" by simp
  have "\<not> str_includes (message ?te) ''timeout''" by simp
  then have d3: "\<forall>a b. message ?te \<noteq> a @ ''timeout'' @ b" by (simp add: str_includes_iff)
  note A = searchTickets_timeout [where srv = "failing aborted" and parse = no_parse
      and query = "JStr ''printer''" and maxResults = JUndefined and w = world0 and e = aborted
      and ?w1.0 = ?w1 and args = ?args and stringify = as_text and c = acme and regexp = no_regexp]
  note B = searchTickets_timeout [where srv = "failing timed_out" and parse = no_parse
      and query = "JStr ''printer''" and maxResults = JUndefined and w = world0 and e = timed_out
      and ?w1.0 = ?w1 and args = ?args and stringify = as_text and c = acme and regexp = no_regexp]
  note C = searchTickets_timeout [where srv = "failing not_found" and parse = no_parse
      and query = "JStr ''printer''" and maxResults = JUndefined and w = world0 and e = not_found
      and ?w1.0 = ?w1 and args = ?args and stringify = as_text and c = acme and regexp = no_regexp]
  note D = searchTickets_timeout [where srv = ?nul and parse = no_parse
      and query = "JStr ''printer''" and maxResults = JUndefined and w = world0 and e = ?te
      and ?w1.0 = ?w1]
  have A1: "searchTickets no_parse (failing aborted) (JStr ''printer'') JUndefined world0 =
     (Inr timeout_result, ?w1)"
    using A [THEN conjunct1, THEN mp, OF conjI [OF ax disjI1 [OF a1(1)]]] .
  have A2: "callTool no_regexp no_parse as_text (failing aborted) (Some acme) ''search_tickets'' ?args world0 =
     Some (Inr \<lparr>content_text = as_text timeout_result, isError = False\<rparr>, ?w1)"
    using A [THEN conjunct2, THEN conjunct1, THEN mp, OF conjI [OF tr conjI [OF ax' disjI1 [OF a1(1)]]]] .
  have B1: "searchTickets no_parse (failing timed_out) (JStr ''printer'') JUndefined world0 =
     (Inr timeout_result, ?w1)"
    using B [THEN conjunct1, THEN mp, OF conjI [OF ax disjI2 [OF b2]]] .
  have B2: "callTool no_regexp no_parse as_text (failing timed_out) (Some acme) ''search_tickets'' ?args world0 =
     Some (Inr \<lparr>content_text = as_text timeout_result, isError = False\<rparr>, ?w1)"
    using B [THEN conjunct2, THEN conjunct1, THEN mp, OF conjI [OF tr conjI [OF ax' disjI2 [OF b2]]]] .
  have C1: "searchTickets no_parse (failing not_found) (JStr ''printer'') JUndefined world0 =
     (Inl not_found, ?w1)"
    using C [THEN conjunct2, THEN conjunct2, THEN conjunct2, THEN conjunct1, THEN mp,
        OF conjI [OF ax conjI [OF n1(1) n2]]] .
  have "search_tickets_try no_parse (failing not_found) (get ?args ''query'')
      (js_or (get ?args ''max_results'') (JNum 100)) world0 = (Inl not_found, ?w1)"
    by (rule search_tickets_try_fails [OF ax'])
  then have C2: "callTool no_regexp no_parse as_text (failing not_found) (Some acme) ''search_tickets'' ?args
      world0 = Some (Inr \<lparr>content_text = JStr (''Error: '' @ message not_found), isError = True\<rparr>, ?w1)"
    using C [THEN conjunct2, THEN conjunct2, THEN conjunct2, THEN conjunct2, THEN conjunct1, THEN mp,
        OF conjI [OF tr conjI [OF _ conjI [OF n1(1) n2]]]] by simp
  have D1: "searchTickets no_parse ?nul (JStr ''printer'') JUndefined world0 = (Inl ?te, ?w1)"
    using D [THEN conjunct2, THEN conjunct2, THEN conjunct1, THEN mp, OF conjI [OF d1 conjI [OF d2 d3]]] .
  show ?thesis
    using ax[of aborted] a1 A1 tr A2 ax[of timed_out] b1 B1 B2 ax[of not_found] n1 C1 C2 d1 D1
    by (intro conjI)
qed

subsection \<open>The dispatcher\<close>

lemma tool_case_None_iff: "tool_case regexp parse srv c name = None \<longleftrightarrow> name \<notin> set tool_names"
  by (simp add: tool_case_def tool_names_def)

lemma str_includes_self: "str_includes s s"
  by (cases s) auto

lemma str_includes_append: "str_includes (xs @ ys) ys"
proof (induction xs)
  case Nil
  show ?case by (simp add: str_includes_self)
next
  case (Cons x xs)
  then show ?case by simp
qed

lemma callTool_never_throws:
  "callTool regexp parse stringify srv zc name args w = Some (r, w1) \<Longrightarrow> \<exists>env. r = Inr env"
  by (auto simp: callTool_def split: option.splits sum.splits prod.splits)

lemma callTool'_envelope: "\<exists>env w2. callTool' stringify srv zc name args w = (Inr env, w2)"
  by (auto simp: callTool'_def split: option.splits sum.splits prod.splits)

lemma tool_case_returns:
  assumes "tool_case regexp parse srv c name = Some run"
    and "name \<noteq> ''get_ticket''" and "name \<noteq> ''get_ticket_comments''"
  shows "\<exists>y. run args w = Some y"
  using assms by (auto simp: tool_case_def split: if_splits prod.splits)

lemma callTool_returns:
  assumes "name \<noteq> ''get_ticket''" and "name \<noteq> ''get_ticket_comments''"
  shows "\<exists>env w2. callTool regexp parse stringify srv zc name args w = Some (Inr env, w2)"
proof (cases zc)
  case None
  then show ?thesis by (simp add: callTool_def)
next
  case (Some c)
  show ?thesis
  proof (cases "tool_case regexp parse srv c name")
    case None
    with Some show ?thesis by (simp add: callTool_def call_tool_try_def)
  next
    case run: (Some run)
    from tool_case_returns[OF run assms, of args w] obtain r w1 where "run args w = Some (r, w1)"
      by auto
    with Some run show ?thesis
      by (cases r) (simp_all add: callTool_def call_tool_try_def)
  qed
qed

text \<open>
  C5 (as amended). Whenever the dispatcher returns, it returns an envelope, never an
  exception; it does return for every tool but the two that paginate, for these whenever
  the method called returns, and the dispatcher of the HTTP server always does. With a
  client configured: arguments that are absent yield the flagged envelope
  \<^verbatim>\<open>Error: No arguments provided\<close>, whatever the tool name; with arguments present, an
  unknown tool name yields a flagged envelope whose text contains the name; and whatever a
  tool throws is wrapped as a flagged envelope with the message of the failure.
\<close>

theorem dispatcher_envelopes:
  "(callTool regexp parse stringify srv zc name args w = Some (r, w1) \<longrightarrow> (\<exists>env. r = Inr env)) \<and>
   (\<exists>env w2. callTool' stringify srv zc name args w = (Inr env, w2)) \<and>
   (name \<noteq> ''get_ticket'' \<and> name \<noteq> ''get_ticket_comments'' \<longrightarrow>
      (\<exists>env w2. callTool regexp parse stringify srv zc name args w = Some (Inr env, w2))) \<and>
   (tool_case regexp parse srv c name = Some run \<and> run args w = Some y \<longrightarrow>
      (\<exists>env w2. callTool regexp parse stringify srv (Some c) name args w = Some (Inr env, w2))) \<and>
   (\<not> truthy args \<longrightarrow>
      callTool regexp parse stringify srv (Some c) name args w =
        Some (Inr \<lparr>content_text = JStr ''Error: No arguments provided'', isError = True\<rparr>, w) \<and>
      callTool' stringify srv (Some c) name args w =
        (Inr \<lparr>content_text = JStr ''Error: No arguments provided'', isError = True\<rparr>, w)) \<and>
   (truthy args \<and> name \<notin> set tool_names \<longrightarrow>
      callTool regexp parse stringify srv (Some c) name args w =
        Some (Inr \<lparr>content_text = JStr (''Unknown tool: '' @ name), isError = True\<rparr>, w) \<and>
      str_includes (''Unknown tool: '' @ name) name) \<and>
   (truthy args \<and> name \<notin> set tool_names' \<longrightarrow>
      callTool' stringify srv (Some c) name args w =
        (Inr \<lparr>content_text = JStr (''Error: Unknown tool: '' @ name), isError = True\<rparr>, w) \<and>
      str_includes (''Error: Unknown tool: '' @ name) name) \<and>
   (truthy args \<and> tool_case regexp parse srv c name = Some run \<and> run args w = Some (Inl e, w1) \<longrightarrow>
      callTool regexp parse stringify srv (Some c) name args w =
        Some (Inr \<lparr>content_text = JStr (''Error: '' @ message e), isError = True\<rparr>, w1)) \<and>
   (truthy args \<and> executeTool srv (Some c) name args w = (Inl e, w1) \<longrightarrow>
      callTool' stringify srv (Some c) name args w =
        (Inr \<lparr>content_text = JStr (''Error: '' @ message e), isError = True\<rparr>, w1))"
proof (intro conjI impI)
  show "\<exists>env w2. callTool' stringify srv zc name args w = (Inr env, w2)"
    by (rule callTool'_envelope)
next
  assume "callTool regexp parse stringify srv zc name args w = Some (r, w1)"
  then show "\<exists>env. r = Inr env" by (rule callTool_never_throws)
next
  assume "name \<noteq> ''get_ticket'' \<and> name \<noteq> ''get_ticket_comments''"
  then show "\<exists>env w2. callTool regexp parse stringify srv zc name args w = Some (Inr env, w2)"
    by (simp add: callTool_returns)
next
  assume "tool_case regexp parse srv c name = Some run \<and> run args w = Some y"
  then show "\<exists>env w2. callTool regexp parse stringify srv (Some c) name args w = Some (Inr env, w2)"
    by (cases y; cases "fst y") (auto simp: callTool_def call_tool_try_def)
next
  assume "\<not> truthy args"
  then show "callTool regexp parse stringify srv (Some c) name args w =
        Some (Inr \<lparr>content_text = JStr ''Error: No arguments provided'', isError = True\<rparr>, w)"
    and "callTool' stringify srv (Some c) name args w =
        (Inr \<lparr>content_text = JStr ''Error: No arguments provided'', isError = True\<rparr>, w)"
    by (simp_all add: callTool_def call_tool_try_def callTool'_def)
next
  assume "truthy args \<and> name \<notin> set tool_names"
  then show "callTool regexp parse stringify srv (Some c) name args w =
        Some (Inr \<lparr>content_text = JStr (''Unknown tool: '' @ name), isError = True\<rparr>, w)"
    using tool_case_None_iff[of regexp parse srv c name] by (simp add: callTool_def call_tool_try_def)
next
  show "str_includes (''Unknown tool: '' @ name) name" by (rule str_includes_append)
next
  assume "truthy args \<and> name \<notin> set tool_names'"
  then show "callTool' stringify srv (Some c) name args w =
        (Inr \<lparr>content_text = JStr (''Error: Unknown tool: '' @ name), isError = True\<rparr>, w)"
    by (simp add: callTool'_def executeTool_def tool_names'_def)
next
  show "str_includes (''Error: Unknown tool: '' @ name) name" by (rule str_includes_append)
next
  assume "truthy args \<and> tool_case regexp parse srv c name = Some run \<and> run args w = Some (Inl e, w1)"
  then show "callTool regexp parse stringify srv (Some c) name args w =
        Some (Inr \<lparr>content_text = JStr (''Error: '' @ message e), isError = True\<rparr>, w1)"
    by (simp add: callTool_def call_tool_try_def)
next
  assume "truthy args \<and> executeTool srv (Some c) name args w = (Inl e, w1)"
  then show "callTool' stringify srv (Some c) name args w =
        (Inr \<lparr>content_text = JStr (''Error: '' @ message e), isError = True\<rparr>, w1)"
    by (simp add: callTool'_def)
qed

theorem dispatcher_envelopes_witness:
  "callTool no_regexp no_parse as_text (lookup_remote []) (Some acme) ''get_user''
       (JObj [(''user_id'', JNum 5)]) world0 =
     Some (Inr \<lparr>content_text = JStr (''Error: '' @ message not_found), isError = True\<rparr>,
           world0\<lparr>sent := [get_req ''/users/5.json'']\<rparr>) \<and>
   ''get_user'' \<noteq> ''get_ticket'' \<and> ''get_user'' \<noteq> ''get_ticket_comments'' \<and>
   truthy (JObj [(''user_id'', JNum 5)]) \<and>
   tool_case no_regexp no_parse (lookup_remote []) acme ''get_user'' =
     Some (\<lambda>args w. Some (getUser (lookup_remote []) (get args ''user_id'') w)) \<and>
   getUser (lookup_remote []) (get (JObj [(''user_id'', JNum 5)]) ''user_id'') world0 =
     (Inl not_found, world0\<lparr>sent := [get_req ''/users/5.json'']\<rparr>) \<and>
   executeTool (lookup_remote []) (Some acme) ''get_user'' (JObj [(''user_id'', JNum 5)]) world0 =
     (Inl not_found, world0\<lparr>sent := [get_req ''/users/5.json'']\<rparr>) \<and>
   callTool' as_text (lookup_remote []) (Some acme) ''get_user'' (JObj [(''user_id'', JNum 5)]) world0 =
     (Inr \<lparr>content_text = JStr (''Error: '' @ message not_found), isError = True\<rparr>,
      world0\<lparr>sent := [get_req ''/users/5.json'']\<rparr>) \<and>
   \<not> truthy JUndefined \<and>
   callTool no_regexp no_parse as_text (lookup_remote []) (Some acme) ''get_user'' JUndefined world0 =
     Some (Inr \<lparr>content_text = JStr ''Error: No arguments provided'', isError = True\<rparr>, world0) \<and>
   callTool' as_text (lookup_remote []) (Some acme) ''get_user'' JUndefined world0 =
     (Inr \<lparr>content_text = JStr ''Error: No arguments provided'', isError = True\<rparr>, world0) \<and>
   truthy (JObj []) \<and> ''no_such_tool'' \<notin> set tool_names \<and> ''no_such_tool'' \<notin> set tool_names' \<and>
   callTool no_regexp no_parse as_text (lookup_remote []) (Some acme) ''no_such_tool'' (JObj []) world0 =
     Some (Inr \<lparr>content_text = JStr ''Unknown tool: no_such_tool'', isError = True\<rparr>, world0) \<and>
   callTool' as_text (lookup_remote []) (Some acme) ''no_such_tool'' (JObj []) world0 =
     (Inr \<lparr>content_text = JStr ''Error: Unknown tool: no_such_tool'', isError = True\<rparr>, world0)"
proof -
  let ?srv = "lookup_remote [] :: unit remote"
  let ?args = "JObj [(''user_id'', JNum 5)]"
  let ?w1 = "world0\<lparr>sent := [get_req ''/users/5.json'']\<rparr>"
  let ?run = "\<lambda>args w. Some (getUser ?srv (get args ''user_id'') w)"
  have n: "''get_user'' \<noteq> ''get_ticket''" "''get_user'' \<noteq> ''get_ticket_comments''" by simp_all
  have tr: "truthy ?args" by simp
  have tc: "tool_case no_regexp no_parse ?srv acme ''get_user'' = Some ?run" by (simp add: tool_case_def)
  have gu: "getUser ?srv (get ?args ''user_id'') world0 = (Inl not_found, ?w1)"
    by (simp add: getUser_def get_def show_int_def digits.simps digit_def axios_def lookup_remote_def
        get_req_def world0_def not_found_def)
  have ex: "executeTool ?srv (Some acme) ''get_user'' ?args world0 = (Inl not_found, ?w1)"
    using gu by (simp add: executeTool_def get_def)
  have nt: "\<not> truthy JUndefined" by simp
  have te: "truthy (JObj [])" by simp
  have un: "''no_such_tool'' \<notin> set tool_names" "''no_such_tool'' \<notin> set tool_names'"
    by (simp_all add: tool_names_def tool_names'_def)
  note A = dispatcher_envelopes [where parse = no_parse and stringify = as_text and srv = ?srv
      and zc = "Some acme" and c = acme and name = "''get_user''" and args = ?args and w = world0
      and ?w1.0 = ?w1 and e = not_found and run = ?run and y = "(Inl not_found, ?w1)"
      and r = "Inr \<lparr>content_text = JStr (''Error: '' @ message not_found), isError = True\<rparr>"]
  note B = dispatcher_envelopes [where parse = no_parse and stringify = as_text and srv = ?srv
      and c = acme and name = "''get_user''" and args = JUndefined and w = world0]
  note C = dispatcher_envelopes [where parse = no_parse and stringify = as_text and srv = ?srv
      and c = acme and name = "''no_such_tool''" and args = "JObj []" and w = world0]
  have a7: "callTool no_regexp no_parse as_text ?srv (Some acme) ''get_user'' ?args world0 =
     Some (Inr \<lparr>content_text = JStr (''Error: '' @ message not_found), isError = True\<rparr>, ?w1)"
    using A tr tc gu by simp
  have a8: "callTool' as_text ?srv (Some acme) ''get_user'' ?args world0 =
     (Inr \<lparr>content_text = JStr (''Error: '' @ message not_found), isError = True\<rparr>, ?w1)"
    using A tr ex by simp
  have b: "callTool no_regexp no_parse as_text ?srv (Some acme) ''get_user'' JUndefined world0 =
     Some (Inr \<lparr>content_text = JStr ''Error: No arguments provided'', isError = True\<rparr>, world0)"
    "callTool' as_text ?srv (Some acme) ''get_user'' JUndefined world0 =
     (Inr \<lparr>content_text = JStr ''Error: No arguments provided'', isError = True\<rparr>, world0)"
    using B nt by simp_all
  have c: "callTool no_regexp no_parse as_text ?srv (Some acme) ''no_such_tool'' (JObj []) world0 =
     Some (Inr \<lparr>content_text = JStr ''Unknown tool: no_such_tool'', isError = True\<rparr>, world0)"
    "callTool' as_text ?srv (Some acme) ''no_such_tool'' (JObj []) world0 =
     (Inr \<lparr>content_text = JStr ''Error: Unknown tool: no_such_tool'', isError = True\<rparr>, world0)"
    using C te un by simp_all
  show ?thesis using a7 n tr tc gu ex a8 nt b te un c by (intro conjI)
qed

lemma endless_never_returns:
  "comments_loop srv c nxt acc w = Some y \<Longrightarrow> srv = endless \<longrightarrow> c = acme \<longrightarrow> nxt = None \<or> nxt = Some []"
proof (induction rule: comments_loop.raw_induct[rotated 1, consumes 1])
  case (1 loop srv c nxt acc w y)
  show ?case
  proof (intro impI)
    assume e: "srv = endless" and c: "c = acme"
    show "nxt = None \<or> nxt = Some []"
    proof (rule ccontr)
      assume "\<not> (nxt = None \<or> nxt = Some [])"
      then obtain u where u: "nxt = Some u" "u \<noteq> []" by (cases nxt) auto
      have "next_page_url acme (JObj [(''comments'', JArr []), (''next_page'', JStr ''/more'')]) =
              Inr (Some ''/more'')"
        by (simp add: next_page_url_def acme_def ZendeskClient_def)
      with 1(2) u e c have "loop endless acme (Some ''/more'') (acc @ [])
          (w\<lparr>server := server w, sent := sent w @ [get_req u]\<rparr>) = Some y"
        by (simp add: axios_def endless_def)
      from 1(1)[OF this] show False by simp
    qed
  qed
qed

text \<open>
  C5 as stated fails: an unknown tool name without arguments yields the envelope
  \<^verbatim>\<open>Error: No arguments provided\<close>, which does not contain the name; and against a
  remote that never stops serving continuation references, \<^verbatim>\<open>get_ticket_comments\<close>
  does not return at all.
\<close>

theorem dispatcher_counterexample:
  "''no_such_tool'' \<notin> set tool_names \<and>
   callTool no_regexp no_parse as_text (lookup_remote []) (Some acme) ''no_such_tool'' JUndefined world0 =
     Some (Inr \<lparr>content_text = JStr ''Error: No arguments provided'', isError = True\<rparr>, world0) \<and>
   \<not> str_includes ''Error: No arguments provided'' ''no_such_tool'' \<and>
   callTool no_regexp no_parse as_text endless (Some acme) ''get_ticket_comments''
     (JObj [(''ticket_id'', JNum 7)]) world0 = None"
proof -
  have "comments_loop endless acme (Some (comments_path (JNum 7))) [] world0 = None"
  proof (cases "comments_loop endless acme (Some (comments_path (JNum 7))) [] world0")
    case (Some y)
    from endless_never_returns[OF this] show ?thesis by (simp add: comments_path_def)
  qed simp
  then have "callTool no_regexp no_parse as_text endless (Some acme) ''get_ticket_comments''
     (JObj [(''ticket_id'', JNum 7)]) world0 = None"
    by (simp add: callTool_def call_tool_try_def tool_case_def getTicketComments_def get_def)
  then show ?thesis
    by (simp add: callTool_def call_tool_try_def tool_names_def)
qed

lemma comments_loop_fails:
  "fails_after srv c u (server w) pages e \<Longrightarrow> u \<noteq> [] \<Longrightarrow>
   \<exists>w'. comments_loop srv c (Some u) acc w = Some (Inl e, w')"
proof (induction pages arbitrary: u acc w)
  case Nil
  obtain r s1 where srv: "srv (server w) (get_req u) = (r, s1)" by (cases "srv (server w) (get_req u)")
  with Nil have "axios srv (get_req u) w = (Inl e, w\<lparr>server := s1, sent := sent w @ [get_req u]\<rparr>)"
    by (simp add: axios_def)
  with Nil.prems(2) show ?case by (subst comments_loop.simps) simp
next
  case (Cons p ps)
  obtain r s1 where srv: "srv (server w) (get_req u) = (r, s1)" by (cases "srv (server w) (get_req u)")
  with Cons.prems obtain data where r: "r = Inr data" by (cases r) auto
  let ?w1 = "w\<lparr>server := s1, sent := sent w @ [get_req u]\<rparr>"
  have ax: "axios srv (get_req u) w = (Inr data, ?w1)" by (simp add: axios_def srv r)
  from Cons.prems srv r have cs: "field data ''comments'' = Inr (JArr p)" by simp
  from Cons.prems srv r obtain n where np: "field data ''next_page'' = Inr (JStr n)"
    and n: "n \<noteq> []" "n \<noteq> baseURL c"
    and fa: "fails_after srv c (replace_first (baseURL c) [] n) (server ?w1) ps e"
    by (auto split: sum.splits jsval.splits)
  have ne: "replace_first (baseURL c) [] n \<noteq> []" using n by (simp add: replace_first_Nil_iff)
  from Cons.IH[OF fa ne, of "acc @ p"] obtain w' where
    "comments_loop srv c (Some (replace_first (baseURL c) [] n)) (acc @ p) ?w1 = Some (Inl e, w')"
    by blast
  then show ?case
    using Cons.prems(2) ax cs np n
    by (subst comments_loop.simps) (simp add: next_page_url_def)
qed

text \<open>
  C6. When the remote serves any number of pages of comments and fails on the next one,
  \<^verbatim>\<open>getTicketComments\<close> and \<^verbatim>\<open>getTicket\<close> return that failure and nothing of the
  comments accumulated, and the dispatcher answers with the flagged envelope that carries
  the message of the failure.
\<close>

theorem pagination_failure_surfaces:
  "(fails_after srv c (comments_path tid) (server w) pages e \<longrightarrow>
      map_option fst (getTicketComments srv c tid w) = Some (Inl e) \<and>
      (truthy args \<and> get args ''ticket_id'' = tid \<longrightarrow>
         map_option fst (callTool regexp parse stringify srv (Some c) ''get_ticket_comments'' args w) =
           Some (Inr \<lparr>content_text = JStr (''Error: '' @ message e), isError = True\<rparr>))) \<and>
   (srv (server w) (get_req (ticket_path tid)) = (Inr td, s1) \<and>
    fails_after srv c (comments_path tid) s1 pages e \<longrightarrow>
      map_option fst (getTicket srv c tid w) = Some (Inl e) \<and>
      (truthy args \<and> get args ''ticket_id'' = tid \<longrightarrow>
         map_option fst (callTool regexp parse stringify srv (Some c) ''get_ticket'' args w) =
           Some (Inr \<lparr>content_text = JStr (''Error: '' @ message e), isError = True\<rparr>)))"
proof (intro conjI impI)
  have ne: "comments_path tid \<noteq> []" by (simp add: comments_path_def)
  {
    assume "fails_after srv c (comments_path tid) (server w) pages e"
    from comments_loop_fails[OF this ne, of "[]"] obtain w' where
      l: "comments_loop srv c (Some (comments_path tid)) [] w = Some (Inl e, w')" by auto
    then show g: "map_option fst (getTicketComments srv c tid w) = Some (Inl e)"
      by (simp add: getTicketComments_def)
    assume "truthy args \<and> get args ''ticket_id'' = tid"
    with l show "map_option fst (callTool regexp parse stringify srv (Some c) ''get_ticket_comments'' args w) =
           Some (Inr \<lparr>content_text = JStr (''Error: '' @ message e), isError = True\<rparr>)"
      by (simp add: callTool_def call_tool_try_def tool_case_def getTicketComments_def)
  }
  {
    assume a: "srv (server w) (get_req (ticket_path tid)) = (Inr td, s1) \<and>
      fails_after srv c (comments_path tid) s1 pages e"
    let ?w1 = "w\<lparr>server := s1, sent := sent w @ [get_req (ticket_path tid)]\<rparr>"
    have ax: "axios srv (get_req (ticket_path tid)) w = (Inr td, ?w1)"
      using a by (simp add: axios_def)
    have "fails_after srv c (comments_path tid) (server ?w1) pages e" using a by simp
    from comments_loop_fails[OF this ne, of "[]"] obtain w' where
      l: "comments_loop srv c (Some (comments_path tid)) [] ?w1 = Some (Inl e, w')" by auto
    with ax show "map_option fst (getTicket srv c tid w) = Some (Inl e)"
      by (simp add: getTicket_def)
    assume "truthy args \<and> get args ''ticket_id'' = tid"
    with l ax show "map_option fst (callTool regexp parse stringify srv (Some c) ''get_ticket'' args w) =
           Some (Inr \<lparr>content_text = JStr (''Error: '' @ message e), isError = True\<rparr>)"
      by (simp add: callTool_def call_tool_try_def tool_case_def getTicket_def)
  }
qed

theorem pagination_failure_surfaces_witness:
  "fails_after (lookup_remote broken7) acme (comments_path (JNum 7)) (server world0)
     [[JStr ''a'', JStr ''b'']] not_found \<and>
   lookup_remote broken7 (server world0) (get_req (ticket_path (JNum 7))) =
     (Inr (JObj [(''ticket'', JObj [(''id'', JNum 7)])]), ()) \<and>
   truthy (JObj [(''ticket_id'', JNum 7)]) \<and>
   get (JObj [(''ticket_id'', JNum 7)]) ''ticket_id'' = JNum 7 \<and>
   map_option fst (getTicketComments (lookup_remote broken7) acme (JNum 7) world0) = Some (Inl not_found) \<and>
   map_option fst (getTicket (lookup_remote broken7) acme (JNum 7) world0) = Some (Inl not_found) \<and>
   map_option fst (callTool no_regexp no_parse as_text (lookup_remote broken7) (Some acme) ''get_ticket_comments''
       (JObj [(''ticket_id'', JNum 7)]) world0) =
     Some (Inr \<lparr>content_text = JStr (''Error: '' @ message not_found), isError = True\<rparr>) \<and>
   map_option fst (callTool no_regexp no_parse as_text (lookup_remote broken7) (Some acme) ''get_ticket''
       (JObj [(''ticket_id'', JNum 7)]) world0) =
     Some (Inr \<lparr>content_text = JStr (''Error: '' @ message not_found), isError = True\<rparr>)"
proof -
  let ?srv = "lookup_remote broken7"
  let ?args = "JObj [(''ticket_id'', JNum 7)]"
  let ?td = "JObj [(''ticket'', JObj [(''id'', JNum 7)])]"
  have f: "fails_after ?srv acme (comments_path (JNum 7)) (server world0) [[JStr ''a'', JStr ''b'']] not_found"
    by (simp add: comments_path_def show_int_def digits.simps digit_def lookup_remote_def broken7_def
        ticket7_def get_req_def acme_def ZendeskClient_def world0_def not_found_def)
  have f': "fails_after ?srv acme (comments_path (JNum 7)) () [[JStr ''a'', JStr ''b'']] not_found"
    using f by (simp add: world0_def)
  have t: "?srv (server world0) (get_req (ticket_path (JNum 7))) = (Inr ?td, ())"
    by (simp add: ticket_path_def show_int_def digits.simps digit_def lookup_remote_def broken7_def
        ticket7_def get_req_def)
  have a: "truthy ?args \<and> get ?args ''ticket_id'' = JNum 7" by (simp add: get_def)
  note p = pagination_failure_surfaces [where srv = ?srv and c = acme and tid = "JNum 7"
      and w = world0 and pages = "[[JStr ''a'', JStr ''b'']]" and e = not_found and args = ?args
      and parse = no_parse and stringify = as_text and td = ?td and ?s1.0 = "()"]
  from p [THEN conjunct1, THEN mp, OF f] a p [THEN conjunct2, THEN mp, OF conjI [OF t f']]
  show ?thesis using f t a by simp
qed

subsection \<open>Sessions\<close>

lemma no_session_rejected:
  assumes "case session_header req of
             None \<Rightarrow> True
           | Some sid \<Rightarrow> transports sid = None \<and> sid \<notin> set object_prototype_keys"
    and "\<not> (http_method req = ''POST'' \<and> isInitializeRequest (http_body req))"
  shows "mcp_endpoint fresh handleRequest transports req =
           (Json 400 (rpc_error (- 32000) ''Bad Request: No valid session or initialize request''),
            transports)"
  using assms by (auto simp: mcp_endpoint_def transports_get_def Let_def split: option.splits)

lemma stale_session_rejected:
  assumes "sid \<notin> set object_prototype_keys"
    and "\<not> (http_method req = ''POST'' \<and> isInitializeRequest (http_body req))"
    and "session_header req = Some sid"
  shows "mcp_endpoint fresh handleRequest (on_event t transports (Closed (Some sid))) req =
           (Json 400 (rpc_error (- 32000) ''Bad Request: No valid session or initialize request''),
            on_event t transports (Closed (Some sid)))"
  using assms by (intro no_session_rejected) auto

text \<open>
  C4 fails on the code for a session header that names a member of the prototype of the
  session table: with an empty table, a request that is no handshake and whose header is
  \<^verbatim>\<open>constructor\<close> is not answered with the client error of code -32000 but with the
  server error of code -32603. (For every other header that names no session the two lemmas
  above give the rejection the claim describes, and the table is left as it was.)
\<close>

theorem inherited_session_not_rejected:
  "\<not> isInitializeRequest (JObj [(''jsonrpc'', JStr ''2.0''), (''method'', JStr ''tools/list''),
                                 (''id'', JNum 1)]) \<and>
   Map.empty ''constructor'' = (None :: 't option) \<and>
   mcp_endpoint fresh handleRequest (Map.empty :: string \<rightharpoonup> 't)
     \<lparr>session_header = Some ''constructor'', http_method = ''POST'',
      http_body = JObj [(''jsonrpc'', JStr ''2.0''), (''method'', JStr ''tools/list''), (''id'', JNum 1)]\<rparr> =
     (Json 500 (rpc_error (- 32603) ''transport.handleRequest is not a function''), Map.empty)"
  by (simp add: mcp_endpoint_def transports_get_def object_prototype_keys_def isInitializeRequest_def
      get_def)

end
